theory Spec2Isabelle
  imports Main
begin

section \<open>Text primitives of the host language\<close>

text \<open>
  The validators are JavaScript classes working on strings. A string is modelled as a
  \<^typ>\<open>string\<close>, one \<^typ>\<open>char\<close> per code unit; the model therefore covers the
  strings whose code units are below 256 (Latin-1), and is exact on those. The primitives
  below are \<^verbatim>\<open>String.prototype.trim\<close>, \<^verbatim>\<open>startsWith\<close>,
  \<^verbatim>\<open>toLowerCase\<close>, \<^verbatim>\<open>includes\<close> and \<^verbatim>\<open>split('\n')\<close>.
\<close>

definition isLineTerminator :: "char \<Rightarrow> bool" where
  "isLineTerminator c = (c = CHR 0x0A \<or> c = CHR 0x0D)"

text \<open>White space and line terminators below 256: TAB, LF, VT, FF, CR, SP, NBSP.\<close>

definition isWhiteSpace :: "char \<Rightarrow> bool" where
  "isWhiteSpace c = (c = CHR 0x09 \<or> c = CHR 0x0A \<or> c = CHR 0x0B \<or> c = CHR 0x0C
                     \<or> c = CHR 0x0D \<or> c = CHR 0x20 \<or> c = CHR 0xA0)"

definition inRange :: "char \<Rightarrow> char \<Rightarrow> char \<Rightarrow> bool" where
  "inRange lo hi c = ((of_char lo :: nat) \<le> of_char c \<and> (of_char c :: nat) \<le> of_char hi)"

definition isDigit :: "char \<Rightarrow> bool" where
  "isDigit c = inRange (CHR ''0'') (CHR ''9'') c"

definition isWordChar :: "char \<Rightarrow> bool" where
  "isWordChar c = (inRange (CHR ''a'') (CHR ''z'') c \<or> inRange (CHR ''A'') (CHR ''Z'') c
                   \<or> isDigit c \<or> c = CHR ''_'')"

definition asciiUpper :: "char \<Rightarrow> char" where
  "asciiUpper c =
     (if inRange (CHR ''a'') (CHR ''z'') c then char_of (of_char c - (32::nat)) else c)"

definition asciiLower :: "char \<Rightarrow> char" where
  "asciiLower c =
     (if inRange (CHR ''A'') (CHR ''Z'') c then char_of (of_char c + (32::nat)) else c)"

text \<open>
  \<^verbatim>\<open>toLowerCase\<close> on Latin-1: the ASCII capitals and the capitals 0xC0..0xDE
  (without the multiplication sign 0xD7) move up by 32; every other code unit stays.
\<close>

definition lowerChar :: "char \<Rightarrow> char" where
  "lowerChar c =
     (if inRange (CHR ''A'') (CHR ''Z'') c
         \<or> (inRange (CHR 0xC0) (CHR 0xDE) c \<and> c \<noteq> CHR 0xD7)
      then char_of (of_char c + (32::nat)) else c)"

definition toLowerCase :: "string \<Rightarrow> string" where
  "toLowerCase s = map lowerChar s"

definition trim :: "string \<Rightarrow> string" where
  "trim s = rev (dropWhile isWhiteSpace (rev (dropWhile isWhiteSpace s)))"

definition startsWith :: "string \<Rightarrow> string \<Rightarrow> bool" where
  "startsWith p s = (take (length p) s = p)"

fun includes_str :: "string \<Rightarrow> string \<Rightarrow> bool" where
  "includes_str p [] = (p = [])"
| "includes_str p (c # cs) = (startsWith p (c # cs) \<or> includes_str p cs)"

text \<open>
  \<^verbatim>\<open>s.split('\n')\<close>: the pieces between line feeds; the empty string gives one
  empty piece, and a trailing line feed gives a last empty piece.
\<close>

fun split :: "string \<Rightarrow> string list" where
  "split [] = [[]]"
| "split (c # cs) =
     (if c = CHR 0x0A then [] # split cs
      else (case split cs of [] \<Rightarrow> [[c]] | l # ls \<Rightarrow> (c # l) # ls))"


section \<open>Regular expressions and \<open>RegExp.prototype.test\<close>\<close>

text \<open>
  The rule tables are regular-expression literals. They use literals, the dot, character
  classes (also negated, with the escapes \<^verbatim>\<open>\s\<close>, \<^verbatim>\<open>\d\<close>, \<^verbatim>\<open>\w\<close>),
  the assertions \<^verbatim>\<open>^\<close>, \<^verbatim>\<open>$\<close>, \<^verbatim>\<open>\b\<close>, grouping, alternation and the
  quantifiers \<^verbatim>\<open>?\<close>, \<^verbatim>\<open>*\<close>, \<^verbatim>\<open>+\<close> (greedy or lazy), with at most the
  flag \<^verbatim>\<open>i\<close>. No literal has a back-reference, a look-around or the flags
  \<^verbatim>\<open>g\<close>, \<^verbatim>\<open>y\<close>, \<^verbatim>\<open>m\<close>, \<^verbatim>\<open>s\<close>, \<^verbatim>\<open>u\<close>, so \<^verbatim>\<open>test\<close>
  keeps no state and answers whether some substring matches; groups and laziness do not
  change that answer.
\<close>

datatype citem = CChr char | CRng char char | CSpace | CDigit | CWord

datatype rx = Eps | Lit char | Dot | Cls "citem list" | NCls "citem list"
  | Bol | Eol | WordB | Seq rx rx | Alt rx rx | Opt rx | Star rx | Plus rx

datatype regexp = RegExp (source: rx) (ignoreCase: bool)

fun item_has :: "citem \<Rightarrow> char \<Rightarrow> bool" where
  "item_has (CChr a) c = (c = a)"
| "item_has (CRng lo hi) c = inRange lo hi c"
| "item_has CSpace c = isWhiteSpace c"
| "item_has CDigit c = isDigit c"
| "item_has CWord c = isWordChar c"

text \<open>
  Under the flag \<^verbatim>\<open>i\<close> two code units match when their canonical (upper-case) forms
  agree. Every literal and class member of the tables is ASCII, and without the flag
  \<^verbatim>\<open>u\<close> a code unit from 128 on never canonicalises to one below 128, so only the
  ASCII part of the canonicalisation can be observed.
\<close>

definition chr_eq :: "bool \<Rightarrow> char \<Rightarrow> char \<Rightarrow> bool" where
  "chr_eq ic a c = (if ic then asciiUpper a = asciiUpper c else a = c)"

definition cls_has :: "bool \<Rightarrow> citem list \<Rightarrow> char \<Rightarrow> bool" where
  "cls_has ic items c =
     (if ic then list_ex (\<lambda>it. item_has it (asciiUpper c) \<or> item_has it (asciiLower c)) items
      else list_ex (\<lambda>it. item_has it c) items)"

text \<open>
  A matcher state is a position in the subject: the code unit before it (none at the start)
  and the text from it on. \<open>ends ic r st\<close> lists the positions where a match of \<open>r\<close>
  that starts at \<open>st\<close> can end.
\<close>

type_synonym mstate = "char option \<times> string"

definition eat :: "(char \<Rightarrow> bool) \<Rightarrow> mstate \<Rightarrow> mstate list" where
  "eat P st = (case snd st of [] \<Rightarrow> [] | c # cs \<Rightarrow> if P c then [(Some c, cs)] else [])"

definition atBoundary :: "mstate \<Rightarrow> bool" where
  "atBoundary st =
     ((case fst st of None \<Rightarrow> False | Some p \<Rightarrow> isWordChar p)
      \<noteq> (case snd st of [] \<Rightarrow> False | c # cs \<Rightarrow> isWordChar c))"

text \<open>
  Repetition: an iteration that consumes nothing adds no position, so at most as many
  iterations as code units are left need to be followed.
\<close>

fun iter :: "(mstate \<Rightarrow> mstate list) \<Rightarrow> nat \<Rightarrow> mstate \<Rightarrow> mstate list" where
  "iter f 0 st = [st]"
| "iter f (Suc n) st =
     remdups (st # concat (map (iter f n)
        (filter (\<lambda>st'. length (snd st') < length (snd st)) (f st))))"

fun ends :: "bool \<Rightarrow> rx \<Rightarrow> mstate \<Rightarrow> mstate list" where
  "ends ic Eps st = [st]"
| "ends ic (Lit a) st = eat (chr_eq ic a) st"
| "ends ic Dot st = eat (\<lambda>c. \<not> isLineTerminator c) st"
| "ends ic (Cls items) st = eat (cls_has ic items) st"
| "ends ic (NCls items) st = eat (\<lambda>c. \<not> cls_has ic items c) st"
| "ends ic Bol st = (if fst st = None then [st] else [])"
| "ends ic Eol st = (if snd st = [] then [st] else [])"
| "ends ic WordB st = (if atBoundary st then [st] else [])"
| "ends ic (Seq a b) st = remdups (concat (map (ends ic b) (ends ic a st)))"
| "ends ic (Alt a b) st = remdups (ends ic a st @ ends ic b st)"
| "ends ic (Opt a) st = remdups (st # ends ic a st)"
| "ends ic (Star a) st = iter (ends ic a) (length (snd st)) st"
| "ends ic (Plus a) st =
     remdups (concat (map (\<lambda>st'. iter (ends ic a) (length (snd st')) st') (ends ic a st)))"

text \<open>\<^verbatim>\<open>test\<close> tries every start position, from the left.\<close>

fun search :: "bool \<Rightarrow> rx \<Rightarrow> char option \<Rightarrow> string \<Rightarrow> bool" where
  "search ic r p [] = (ends ic r (p, []) \<noteq> [])"
| "search ic r p (c # cs) = (ends ic r (p, c # cs) \<noteq> [] \<or> search ic r (Some c) cs)"

definition test :: "regexp \<Rightarrow> string \<Rightarrow> bool" where
  "test re s = search (ignoreCase re) (source re) None s"

text \<open>
  What a match is, stated without the list of positions: \<open>matches ic r st st'\<close> holds
  when \<open>r\<close> matches the text between the positions \<open>st\<close> and \<open>st'\<close>. The matcher
  above is shown below to compute exactly these matches.
\<close>

inductive matches :: "bool \<Rightarrow> rx \<Rightarrow> mstate \<Rightarrow> mstate \<Rightarrow> bool" for ic :: bool where
  m_Eps: "matches ic Eps st st"
| m_Lit: "chr_eq ic a c \<Longrightarrow> matches ic (Lit a) (p, c # cs) (Some c, cs)"
| m_Dot: "\<not> isLineTerminator c \<Longrightarrow> matches ic Dot (p, c # cs) (Some c, cs)"
| m_Cls: "cls_has ic items c \<Longrightarrow> matches ic (Cls items) (p, c # cs) (Some c, cs)"
| m_NCls: "\<not> cls_has ic items c \<Longrightarrow> matches ic (NCls items) (p, c # cs) (Some c, cs)"
| m_Bol: "matches ic Bol (None, s) (None, s)"
| m_Eol: "matches ic Eol (p, []) (p, [])"
| m_WordB: "atBoundary st \<Longrightarrow> matches ic WordB st st"
| m_Seq: "matches ic a st st' \<Longrightarrow> matches ic b st' st'' \<Longrightarrow> matches ic (Seq a b) st st''"
| m_AltL: "matches ic a st st' \<Longrightarrow> matches ic (Alt a b) st st'"
| m_AltR: "matches ic b st st' \<Longrightarrow> matches ic (Alt a b) st st'"
| m_OptNone: "matches ic (Opt a) st st"
| m_OptSome: "matches ic a st st' \<Longrightarrow> matches ic (Opt a) st st'"
| m_StarNil: "matches ic (Star a) st st"
| m_StarStep: "matches ic a st st' \<Longrightarrow> matches ic (Star a) st' st'' \<Longrightarrow> matches ic (Star a) st st''"
| m_Plus: "matches ic a st st' \<Longrightarrow> matches ic (Star a) st' st'' \<Longrightarrow> matches ic (Plus a) st st''"

subsection \<open>Writing the literals\<close>

fun cat :: "rx list \<Rightarrow> rx" where
  "cat [] = Eps"
| "cat [r] = r"
| "cat (r # rs) = Seq r (cat rs)"

fun alts :: "rx list \<Rightarrow> rx" where
  "alts [] = Cls []"
| "alts [r] = r"
| "alts (r # rs) = Alt r (alts rs)"

definition str :: "string \<Rightarrow> rx" where
  "str s = cat (map Lit s)"

text \<open>\<^verbatim>\<open>\s\<close>, \<^verbatim>\<open>\w\<close>, \<^verbatim>\<open>\d\<close>, \<^verbatim>\<open>[A-Za-z0-9_]\<close> and single-character classes.\<close>

definition sp :: rx where "sp = Cls [CSpace]"
definition wd :: rx where "wd = Cls [CWord]"
definition dg :: rx where "dg = Cls [CDigit]"

definition alnum :: rx where
  "alnum = Cls [CRng (CHR ''A'') (CHR ''Z''), CRng (CHR ''a'') (CHR ''z''),
                CRng (CHR ''0'') (CHR ''9''), CChr (CHR ''_'')]"

definition oneOf :: "string \<Rightarrow> rx" where
  "oneOf s = Cls (map CChr s)"

definition noneOf :: "string \<Rightarrow> rx" where
  "noneOf s = NCls (map CChr s)"


section \<open>The rule tables\<close>

datatype dialect = Graph | Sequence | ClassDiagram | StateDiagram | ErDiagram
  | Gantt | Journey | Pie | GitGraph | Mindmap

text \<open>The keys of the tables, which are also the values of \<^verbatim>\<open>diagramType\<close>.\<close>

fun name :: "dialect \<Rightarrow> string" where
  "name Graph = ''graph''"
| "name Sequence = ''sequence''"
| "name ClassDiagram = ''classDiagram''"
| "name StateDiagram = ''stateDiagram''"
| "name ErDiagram = ''erDiagram''"
| "name Gantt = ''gantt''"
| "name Journey = ''journey''"
| "name Pie = ''pie''"
| "name GitGraph = ''gitGraph''"
| "name Mindmap = ''mindmap''"

subsection \<open>The type-declaration rules\<close>

text \<open>
  Both validators declare the same type-declaration literals (the pie literal of the strict
  validator only adds a group and a lazy quantifier):
  \<^verbatim>\<open>/^(graph|flowchart)\s*(TB|TD|BT|RL|LR)?\s*$/i\<close>,
  \<^verbatim>\<open>/^sequenceDiagram\s*$/i\<close>, \<^verbatim>\<open>/^classDiagram\s*$/i\<close>,
  \<^verbatim>\<open>/^stateDiagram(-v2)?\s*$/i\<close>, \<^verbatim>\<open>/^erDiagram\s*$/i\<close>,
  \<^verbatim>\<open>/^gantt\s*$/i\<close>, \<^verbatim>\<open>/^journey\s*$/i\<close>,
  \<^verbatim>\<open>/^pie\s*(title\s+.+)?\s*$/i\<close>, \<^verbatim>\<open>/^gitGraph\s*$/i\<close>,
  \<^verbatim>\<open>/^mindmap\s*$/i\<close>.
\<close>

definition graph_types :: regexp where
  "graph_types = RegExp (cat [Bol, alts [str ''graph'', str ''flowchart''], Star sp,
     Opt (alts [str ''TB'', str ''TD'', str ''BT'', str ''RL'', str ''LR'']),
     Star sp, Eol]) True"

definition sequence_type :: regexp where
  "sequence_type = RegExp (cat [Bol, str ''sequenceDiagram'', Star sp, Eol]) True"

definition classDiagram_type :: regexp where
  "classDiagram_type = RegExp (cat [Bol, str ''classDiagram'', Star sp, Eol]) True"

definition stateDiagram_type :: regexp where
  "stateDiagram_type =
     RegExp (cat [Bol, str ''stateDiagram'', Opt (str ''-v2''), Star sp, Eol]) True"

definition erDiagram_type :: regexp where
  "erDiagram_type = RegExp (cat [Bol, str ''erDiagram'', Star sp, Eol]) True"

definition gantt_type :: regexp where
  "gantt_type = RegExp (cat [Bol, str ''gantt'', Star sp, Eol]) True"

definition journey_type :: regexp where
  "journey_type = RegExp (cat [Bol, str ''journey'', Star sp, Eol]) True"

definition pie_type :: regexp where
  "pie_type = RegExp (cat [Bol, str ''pie'', Star sp,
     Opt (cat [str ''title'', Plus sp, Plus Dot]), Star sp, Eol]) True"

definition gitGraph_type :: regexp where
  "gitGraph_type = RegExp (cat [Bol, str ''gitGraph'', Star sp, Eol]) True"

definition mindmap_type :: regexp where
  "mindmap_type = RegExp (cat [Bol, str ''mindmap'', Star sp, Eol]) True"

subsection \<open>The line rules of \<open>FlexibleMermaidValidator\<close>\<close>

text \<open>
  \<^verbatim>\<open>graph.validLine = /^\s*[A-Za-z0-9_\s\[\]\(\)\{\}<>"':|+\-\*\/\\\.,\->]+\s*$/\<close>,
  \<^verbatim>\<open>graph.subgraph = /^subgraph/\<close>, \<^verbatim>\<open>graph.end = /^end\s*$/\<close>.
\<close>

definition flexible_graph_validLine :: regexp where
  "flexible_graph_validLine = RegExp (cat [Bol, Star sp,
     Plus (Cls [CRng (CHR ''A'') (CHR ''Z''), CRng (CHR ''a'') (CHR ''z''),
                CRng (CHR ''0'') (CHR ''9''), CChr (CHR ''_''), CSpace,
                CChr (CHR ''[''), CChr (CHR '']''), CChr (CHR ''(''), CChr (CHR '')''),
                CChr (CHR ''{''), CChr (CHR ''}''), CChr (CHR ''<''), CChr (CHR ''>''),
                CChr (CHR 0x22), CChr (CHR 0x27), CChr (CHR '':''), CChr (CHR ''|''),
                CChr (CHR ''+''), CChr (CHR ''-''), CChr (CHR ''*''), CChr (CHR ''/''),
                CChr (CHR 0x5C), CChr (CHR ''.''), CChr (CHR '',''), CChr (CHR ''-''),
                CChr (CHR ''>'')]),
     Star sp, Eol]) False"

definition flexible_graph_subgraph :: regexp where
  "flexible_graph_subgraph = RegExp (cat [Bol, str ''subgraph'']) False"

definition flexible_graph_end :: regexp where
  "flexible_graph_end = RegExp (cat [Bol, str ''end'', Star sp, Eol]) False"

text \<open>
  \<^verbatim>\<open>sequence.validLine = /^\s*(participant|loop|alt|else|end|note|actor)\b.*$|^\s*[A-Za-z0-9_]+\s*(->>|-->>|\-\->|-\-\->|->|-->|x|-\-x|\-\-x)\s*[A-Za-z0-9_]+.*$/i\<close>
\<close>

definition flexible_sequence_validLine :: regexp where
  "flexible_sequence_validLine = RegExp (alts [
     cat [Bol, Star sp,
          alts [str ''participant'', str ''loop'', str ''alt'', str ''else'', str ''end'',
                str ''note'', str ''actor''],
          WordB, Star Dot, Eol],
     cat [Bol, Star sp, Plus alnum, Star sp,
          alts [str ''->>'', str ''-->>'', str ''-->'', str ''--->'', str ''->'', str ''-->'',
                str ''x'', str ''--x'', str ''--x''],
          Star sp, Plus alnum, Star Dot, Eol]]) True"

text \<open>
  \<^verbatim>\<open>classDiagram.validLine = /^\s*(class|interface|enum)\b.*$|^\s*[A-Za-z0-9_]+\s*(--|\.\.\.|<\|--|\*--|o--|\|\.\.\.)\s*[A-Za-z0-9_]+.*$|^\s*[+\-#~]?\s*[A-Za-z0-9_]+(\(\))?\s*[:{].*$/i\<close>
\<close>

definition flexible_classDiagram_validLine :: regexp where
  "flexible_classDiagram_validLine = RegExp (alts [
     cat [Bol, Star sp, alts [str ''class'', str ''interface'', str ''enum''],
          WordB, Star Dot, Eol],
     cat [Bol, Star sp, Plus alnum, Star sp,
          alts [str ''--'', str ''...'', str ''<|--'', str ''*--'', str ''o--'', str ''|...''],
          Star sp, Plus alnum, Star Dot, Eol],
     cat [Bol, Star sp, Opt (oneOf ''+-#~''), Star sp, Plus alnum, Opt (str ''()''),
          Star sp, oneOf '':{'', Star Dot, Eol]]) True"

text \<open>
  \<^verbatim>\<open>stateDiagram.validLine = /^\s*\[*\]*\s*-->\s*\w+.*$|^\s*\w+\s*-->\s*\[*\]*.*$|^\s*\[\*\]\s*-->\s*\w+.*$|^\s*\w+\s*-->\s*\[\*\].*$/i\<close>
\<close>

definition flexible_stateDiagram_validLine :: regexp where
  "flexible_stateDiagram_validLine = RegExp (alts [
     cat [Bol, Star sp, Star (Lit (CHR ''['')), Star (Lit (CHR '']'')), Star sp, str ''-->'',
          Star sp, Plus wd, Star Dot, Eol],
     cat [Bol, Star sp, Plus wd, Star sp, str ''-->'', Star sp,
          Star (Lit (CHR ''['')), Star (Lit (CHR '']'')), Star Dot, Eol],
     cat [Bol, Star sp, str ''[*]'', Star sp, str ''-->'', Star sp, Plus wd, Star Dot, Eol],
     cat [Bol, Star sp, Plus wd, Star sp, str ''-->'', Star sp, str ''[*]'', Star Dot, Eol]])
     True"

text \<open>
  \<^verbatim>\<open>erDiagram.validLine = /^\s*\w+\s*\{.*$|^\s*\w+\s*:\s*\w+.*$|^\s*\w+\s*(\|\||\{o|o\||}o|o{|\|\}|}\||\{\{)\s*\w+.*$|^\s*\}\s*$/i\<close>
\<close>

definition er_cardinality :: rx where
  "er_cardinality = alts [str ''||'', str ''{o'', str ''o|'', str ''}o'', str ''o{'',
                          str ''|}'', str ''}|'', str ''{{'']"

definition flexible_erDiagram_validLine :: regexp where
  "flexible_erDiagram_validLine = RegExp (alts [
     cat [Bol, Star sp, Plus wd, Star sp, Lit (CHR ''{''), Star Dot, Eol],
     cat [Bol, Star sp, Plus wd, Star sp, Lit (CHR '':''), Star sp, Plus wd, Star Dot, Eol],
     cat [Bol, Star sp, Plus wd, Star sp, er_cardinality, Star sp, Plus wd, Star Dot, Eol],
     cat [Bol, Star sp, Lit (CHR ''}''), Star sp, Eol]]) True"

text \<open>
  \<^verbatim>\<open>gantt.validLine = /^\s*(title|dateFormat|section)\b.*$|^\s*\w+\s*:\s*.*$/i\<close>,
  \<^verbatim>\<open>journey.validLine = /^\s*(title|section)\b.*$|^\s*[^:]+:\s*\d+\s*:\s*\w+.*$/i\<close>,
  \<^verbatim>\<open>pie.validLine = /^\s*"[^"]+"\s*:\s*\d+\s*$/i\<close>,
  \<^verbatim>\<open>gitGraph.validLine = /^\s*(commit|branch|checkout|merge|cherry-pick)\b.*$/i\<close>,
  \<^verbatim>\<open>mindmap.validLine = /^\s*[\s]*[\+\-\*].*$/i\<close>.
\<close>

definition flexible_gantt_validLine :: regexp where
  "flexible_gantt_validLine = RegExp (alts [
     cat [Bol, Star sp, alts [str ''title'', str ''dateFormat'', str ''section''],
          WordB, Star Dot, Eol],
     cat [Bol, Star sp, Plus wd, Star sp, Lit (CHR '':''), Star sp, Star Dot, Eol]]) True"

definition flexible_journey_validLine :: regexp where
  "flexible_journey_validLine = RegExp (alts [
     cat [Bol, Star sp, alts [str ''title'', str ''section''], WordB, Star Dot, Eol],
     cat [Bol, Star sp, Plus (noneOf '':''), Lit (CHR '':''), Star sp, Plus dg, Star sp,
          Lit (CHR '':''), Star sp, Plus wd, Star Dot, Eol]]) True"

definition flexible_pie_validLine :: regexp where
  "flexible_pie_validLine = RegExp (cat [Bol, Star sp, Lit (CHR 0x22),
     Plus (NCls [CChr (CHR 0x22)]), Lit (CHR 0x22), Star sp, Lit (CHR '':''), Star sp,
     Plus dg, Star sp, Eol]) True"

definition flexible_gitGraph_validLine :: regexp where
  "flexible_gitGraph_validLine = RegExp (cat [Bol, Star sp,
     alts [str ''commit'', str ''branch'', str ''checkout'', str ''merge'', str ''cherry-pick''],
     WordB, Star Dot, Eol]) True"

definition flexible_mindmap_validLine :: regexp where
  "flexible_mindmap_validLine =
     RegExp (cat [Bol, Star sp, Star sp, oneOf ''+-*'', Star Dot, Eol]) True"

text \<open>
  Every entry also has the rule \<^verbatim>\<open>comment = /^%%.*$/\<close>; the scans do not consult it
  (they test \<^verbatim>\<open>startsWith('%%')\<close>).
\<close>

definition comment_rule :: regexp where
  "comment_rule = RegExp (cat [Bol, str ''%%'', Star Dot, Eol]) False"

text \<open>
  The look-ups \<^verbatim>\<open>this.patterns[diagramType].type\<close> and
  \<^verbatim>\<open>this.patterns[diagramType].validLine\<close>. The entry \<^verbatim>\<open>graph\<close> stores its
  declaration rule under the key \<^verbatim>\<open>types\<close>, so it has no property \<^verbatim>\<open>type\<close>:
  the look-up gives \<^verbatim>\<open>undefined\<close>, here \<open>None\<close>.
\<close>

fun flexible_type :: "dialect \<Rightarrow> regexp option" where
  "flexible_type Graph = None"
| "flexible_type Sequence = Some sequence_type"
| "flexible_type ClassDiagram = Some classDiagram_type"
| "flexible_type StateDiagram = Some stateDiagram_type"
| "flexible_type ErDiagram = Some erDiagram_type"
| "flexible_type Gantt = Some gantt_type"
| "flexible_type Journey = Some journey_type"
| "flexible_type Pie = Some pie_type"
| "flexible_type GitGraph = Some gitGraph_type"
| "flexible_type Mindmap = Some mindmap_type"

fun flexible_validLine :: "dialect \<Rightarrow> regexp" where
  "flexible_validLine Graph = flexible_graph_validLine"
| "flexible_validLine Sequence = flexible_sequence_validLine"
| "flexible_validLine ClassDiagram = flexible_classDiagram_validLine"
| "flexible_validLine StateDiagram = flexible_stateDiagram_validLine"
| "flexible_validLine ErDiagram = flexible_erDiagram_validLine"
| "flexible_validLine Gantt = flexible_gantt_validLine"
| "flexible_validLine Journey = flexible_journey_validLine"
| "flexible_validLine Pie = flexible_pie_validLine"
| "flexible_validLine GitGraph = flexible_gitGraph_validLine"
| "flexible_validLine Mindmap = flexible_mindmap_validLine"

section \<open>Results and diagnostics\<close>

text \<open>
  The object a dialect scan returns, and the diagnostic \<^verbatim>\<open>validateSyntax\<close> builds from
  it. \<^verbatim>\<open>null\<close> is \<open>None\<close>. Line numbers are 1-based.
\<close>

record result =
  isValid :: bool
  error :: "string option"
  type :: "string option"
  line :: "nat option"
  suggestion :: "string option"

record diagnostic = result +
  processingTime :: int
  diagramType :: string
  elementCount :: nat

definition valid_result :: result where
  "valid_result = \<lparr>isValid = True, error = None, type = None, line = None, suggestion = None\<rparr>"

text \<open>\<^verbatim>\<open>{ ...validationResult, processingTime, diagramType, elementCount }\<close>\<close>

definition spread :: "result \<Rightarrow> int \<Rightarrow> string \<Rightarrow> nat \<Rightarrow> diagnostic" where
  "spread r t d n =
     \<lparr>isValid = isValid r, error = error r, type = type r, line = line r,
      suggestion = suggestion r, processingTime = t, diagramType = d, elementCount = n\<rparr>"

text \<open>
  A value passed to \<^verbatim>\<open>validateSyntax\<close>: a string, or anything else. The guard
  \<^verbatim>\<open>!diagramCode || typeof diagramCode !== 'string'\<close> reads its truthiness and its
  \<^verbatim>\<open>typeof\<close>.
\<close>

datatype jsvalue = JString string | JNull | JUndefined | JNumber int | JBoolean bool | JObject

fun falsy :: "jsvalue \<Rightarrow> bool" where
  "falsy (JString s) = (s = [])"
| "falsy JNull = True"
| "falsy JUndefined = True"
| "falsy (JNumber n) = (n = 0)"
| "falsy (JBoolean b) = (\<not> b)"
| "falsy JObject = False"

fun typeof :: "jsvalue \<Rightarrow> string" where
  "typeof (JString s) = ''string''"
| "typeof JNull = ''object''"
| "typeof JUndefined = ''undefined''"
| "typeof (JNumber n) = ''number''"
| "typeof (JBoolean b) = ''boolean''"
| "typeof JObject = ''object''"

definition rejected_input :: "jsvalue \<Rightarrow> bool" where
  "rejected_input v = (falsy v \<or> typeof v \<noteq> ''string'')"

definition input_error :: diagnostic where
  "input_error =
     \<lparr>isValid = False, error = Some ''Diagram code must be a non-empty string'',
      type = Some ''input_error'', line = None, suggestion = None,
      processingTime = 0, diagramType = ''unknown'', elementCount = 0\<rparr>"

definition no_type_detected :: "int \<Rightarrow> diagnostic" where
  "no_type_detected t =
     \<lparr>isValid = False, error = Some ''No valid diagram type detected'',
      type = Some ''no_type'', line = Some 1,
      suggestion = Some ''Add a diagram type at the beginning (e.g., graph TD, sequenceDiagram, classDiagram)'',
      processingTime = t, diagramType = ''unknown'', elementCount = 0\<rparr>"

text \<open>
  A line that the scans skip: empty after trimming, or a comment. \<^verbatim>\<open>countElements\<close>
  counts the other lines.
\<close>

definition isComment :: "string \<Rightarrow> bool" where
  "isComment l = startsWith ''%%'' (trim l)"

definition meaningful :: "string \<Rightarrow> bool" where
  "meaningful l = (trim l \<noteq> [] \<and> \<not> startsWith ''%%'' (trim l))"

definition countElements :: "string list \<Rightarrow> nat" where
  "countElements ls = length (filter meaningful ls)"


section \<open>Type detection\<close>

text \<open>
  \<^verbatim>\<open>detectDiagramType\<close> has the same text in both validators and reads the same
  declaration rules: the first meaningful line, trimmed and lower-cased, is tested
  against the declaration rules in a fixed order. \<open>None\<close> is the value \<^verbatim>\<open>'unknown'\<close>.
\<close>

definition detectDiagramType :: "string list \<Rightarrow> dialect option" where
  "detectDiagramType ls =
     (case filter meaningful ls of
        [] \<Rightarrow> None
      | l # rest \<Rightarrow>
          (let firstLine = toLowerCase (trim l) in
           if test graph_types firstLine then Some Graph
           else if test sequence_type firstLine then Some Sequence
           else if test classDiagram_type firstLine then Some ClassDiagram
           else if test stateDiagram_type firstLine then Some StateDiagram
           else if test erDiagram_type firstLine then Some ErDiagram
           else if test gantt_type firstLine then Some Gantt
           else if test journey_type firstLine then Some Journey
           else if test pie_type firstLine then Some Pie
           else if test gitGraph_type firstLine then Some GitGraph
           else if test mindmap_type firstLine then Some Mindmap
           else None))"

section \<open>\<open>FlexibleMermaidValidator\<close>\<close>

text \<open>
  \<^verbatim>\<open>validateByType\<close>: the loop over the lines, with the index \<open>i\<close> and the flag
  \<^verbatim>\<open>hasType\<close> as its state. It is only called with a key of the table.
\<close>

definition flexible_isTypeLine :: "dialect \<Rightarrow> string \<Rightarrow> bool" where
  "flexible_isTypeLine d t = (case flexible_type d of None \<Rightarrow> False | Some p \<Rightarrow> test p t)"

definition flexible_isValidLine :: "dialect \<Rightarrow> string \<Rightarrow> bool" where
  "flexible_isValidLine d t =
     (test (flexible_validLine d) t
      \<or> (d = Graph \<and> (test flexible_graph_subgraph t \<or> test flexible_graph_end t)))"

definition flexible_syntax_error :: "dialect \<Rightarrow> string \<Rightarrow> nat \<Rightarrow> result" where
  "flexible_syntax_error d t i =
     \<lparr>isValid = False,
      error = Some (''Invalid '' @ name d @ '' syntax: '' @ [CHR 0x22] @ t @ [CHR 0x22]),
      type = Some ''syntax'', line = Some (i + 1),
      suggestion = Some (''Check '' @ name d @ '' diagram syntax'')\<rparr>"

definition flexible_missing_type :: "dialect \<Rightarrow> result" where
  "flexible_missing_type d =
     \<lparr>isValid = False, error = Some (''Missing '' @ name d @ '' declaration''),
      type = Some ''no_type'', line = Some 1,
      suggestion = Some (''Add '' @ [CHR 0x22] @ name d @ [CHR 0x22] @ '' at the beginning'')\<rparr>"

fun flexible_scan :: "dialect \<Rightarrow> nat \<Rightarrow> bool \<Rightarrow> string list \<Rightarrow> result" where
  "flexible_scan d i hasType [] =
     (if \<not> hasType then flexible_missing_type d else valid_result)"
| "flexible_scan d i hasType (l # ls) =
     (if trim l = [] then flexible_scan d (i + 1) hasType ls
      else if startsWith ''%%'' (trim l) then flexible_scan d (i + 1) hasType ls
      else if flexible_isTypeLine d (trim l) then flexible_scan d (i + 1) True ls
      else if \<not> flexible_isValidLine d (trim l) then flexible_syntax_error d (trim l) i
      else flexible_scan d (i + 1) hasType ls)"

definition flexible_validateByType :: "dialect \<Rightarrow> string list \<Rightarrow> result" where
  "flexible_validateByType d ls = flexible_scan d 0 False ls"

text \<open>
  \<^verbatim>\<open>validateSyntax\<close>. The two readings of the clock, \<^verbatim>\<open>startTime\<close> and the one
  taken when the diagnostic is built, are the arguments \<open>t0\<close> and \<open>t1\<close>. Nothing in the
  guarded block can raise (the scan is only entered with a key of the table, and the lines
  are strings), so the handler is never entered. Past the guard the value is a string; the
  last branch of the case is not reached.
\<close>

definition flexible_validateText :: "int \<Rightarrow> int \<Rightarrow> string \<Rightarrow> diagnostic" where
  "flexible_validateText t0 t1 s =
     (case detectDiagramType (split s) of
        None \<Rightarrow> no_type_detected (t1 - t0)
      | Some d \<Rightarrow>
          spread (flexible_validateByType d (split s)) (t1 - t0) (name d)
            (countElements (split s)))"

definition flexible_validateSyntax :: "int \<Rightarrow> int \<Rightarrow> jsvalue \<Rightarrow> diagnostic" where
  "flexible_validateSyntax t0 t1 v =
     (if rejected_input v then input_error
      else (case v of JString s \<Rightarrow> flexible_validateText t0 t1 s | _ \<Rightarrow> input_error))"

section \<open>\<open>SimpleMermaidValidator\<close>\<close>

subsection \<open>Its line rules\<close>

text \<open>
  \<^verbatim>\<open>graph.node = /^[A-Za-z0-9_]+(\[[^\]]*\]|\([^\)]*\)|\{[^}]*\}|[^:]*?:[^:]*|<[^>]*>|\*[^*]*\*)?\s*$/\<close>,
  \<^verbatim>\<open>graph.connection = /^\s*[A-Za-z0-9_]+\s*(-->|---|\.\.\.>|==>|---\|>|\.\.\.\|>|\.\.\.)\s*[A-Za-z0-9_]+\s*(\[[^\]]*\]|\([^\)]*\)|\{[^}]*\})?(\s*\|\s*.+?\s*\|)?\s*$/\<close>,
  \<^verbatim>\<open>graph.subgraph = /^subgraph\s+(.+)\s*$/i\<close>,
  \<^verbatim>\<open>graph.endSubgraph = /^end\s*$/i\<close>.
\<close>

definition bracketed :: "char \<Rightarrow> char \<Rightarrow> rx" where
  "bracketed a b = cat [Lit a, Star (NCls [CChr b]), Lit b]"

definition simple_graph_node :: regexp where
  "simple_graph_node = RegExp (cat [Bol, Plus alnum,
     Opt (alts [bracketed (CHR ''['') (CHR '']''), bracketed (CHR ''('') (CHR '')''),
                bracketed (CHR ''{'') (CHR ''}''),
                cat [Star (noneOf '':''), Lit (CHR '':''), Star (noneOf '':'')],
                bracketed (CHR ''<'') (CHR ''>''), bracketed (CHR ''*'') (CHR ''*'')]),
     Star sp, Eol]) False"

definition simple_graph_connection :: regexp where
  "simple_graph_connection = RegExp (cat [Bol, Star sp, Plus alnum, Star sp,
     alts [str ''-->'', str ''---'', str ''...>'', str ''==>'', str ''---|>'', str ''...|>'',
           str ''...''],
     Star sp, Plus alnum, Star sp,
     Opt (alts [bracketed (CHR ''['') (CHR '']''), bracketed (CHR ''('') (CHR '')''),
                bracketed (CHR ''{'') (CHR ''}'')]),
     Opt (cat [Star sp, Lit (CHR ''|''), Star sp, Plus Dot, Star sp, Lit (CHR ''|'')]),
     Star sp, Eol]) False"

definition simple_graph_subgraph :: regexp where
  "simple_graph_subgraph =
     RegExp (cat [Bol, str ''subgraph'', Plus sp, Plus Dot, Star sp, Eol]) True"

definition simple_graph_endSubgraph :: regexp where
  "simple_graph_endSubgraph = RegExp (cat [Bol, str ''end'', Star sp, Eol]) True"

text \<open>
  \<^verbatim>\<open>sequence.participant = /^participant\s+(.+?)\s+as\s+(.+?)\s*$/i\<close>,
  \<^verbatim>\<open>sequence.message = /^\s*(.+?)\s*(->>|-->>|\-\->|-\-\->|->|-->|x|-\-x|\-\-x)\s*(.+?):\s*(.+?)\s*$/\<close>,
  \<^verbatim>\<open>sequence.note = /^note\s+(right|left|over)\s+(.+?):\s*(.*?)\s*$/i\<close>,
  \<^verbatim>\<open>sequence.loop = /^loop\s+(.*?)\s*$/i\<close>, \<^verbatim>\<open>sequence.alt = /^alt\s+(.*?)\s*$/i\<close>,
  \<^verbatim>\<open>sequence.else = /^else\s+(.*?)\s*$/i\<close>, \<^verbatim>\<open>sequence.end = /^end\s*$/i\<close>.
\<close>

definition simple_sequence_participant :: regexp where
  "simple_sequence_participant = RegExp (cat [Bol, str ''participant'', Plus sp, Plus Dot,
     Plus sp, str ''as'', Plus sp, Plus Dot, Star sp, Eol]) True"

definition simple_sequence_message :: regexp where
  "simple_sequence_message = RegExp (cat [Bol, Star sp, Plus Dot, Star sp,
     alts [str ''->>'', str ''-->>'', str ''-->'', str ''--->'', str ''->'', str ''-->'',
           str ''x'', str ''--x'', str ''--x''],
     Star sp, Plus Dot, Lit (CHR '':''), Star sp, Plus Dot, Star sp, Eol]) False"

definition simple_sequence_note :: regexp where
  "simple_sequence_note = RegExp (cat [Bol, str ''note'', Plus sp,
     alts [str ''right'', str ''left'', str ''over''], Plus sp, Plus Dot, Lit (CHR '':''),
     Star sp, Star Dot, Star sp, Eol]) True"

text \<open>The shape \<^verbatim>\<open>/^keyword\s+(.*?)\s*$/i\<close> and \<^verbatim>\<open>/^\s*keyword\s+(.+?)\s*$/i\<close>.\<close>

definition keyword_rest :: "string \<Rightarrow> regexp" where
  "keyword_rest k = RegExp (cat [Bol, str k, Plus sp, Star Dot, Star sp, Eol]) True"

definition keyword_arg :: "string \<Rightarrow> regexp" where
  "keyword_arg k = RegExp (cat [Bol, str k, Plus sp, Plus Dot, Star sp, Eol]) True"

definition indented_keyword_arg :: "string \<Rightarrow> regexp" where
  "indented_keyword_arg k =
     RegExp (cat [Bol, Star sp, str k, Plus sp, Plus Dot, Star sp, Eol]) True"

definition simple_sequence_loop :: regexp where
  "simple_sequence_loop = keyword_rest ''loop''"

definition simple_sequence_alt :: regexp where
  "simple_sequence_alt = keyword_rest ''alt''"

definition simple_sequence_else :: regexp where
  "simple_sequence_else = keyword_rest ''else''"

definition simple_sequence_end :: regexp where
  "simple_sequence_end = RegExp (cat [Bol, str ''end'', Star sp, Eol]) True"

text \<open>
  \<^verbatim>\<open>classDiagram.classDef = /^class\s+(\w+)(\s+<\|\-.*|\s*\{[^}]*\})?\s*$/i\<close>,
  \<^verbatim>\<open>classDiagram.relation = /^\s*(\w+)\s*(--|\.\.\.|<\|--|\*--|o--|\|\.\.\.)\s*(\w+)\s*$/i\<close>,
  \<^verbatim>\<open>classDiagram.method = /^\s*[+\-#~]?\s*\w+\([^)]*\)(\s*:\s*\w+)?\s*$/\<close>,
  \<^verbatim>\<open>classDiagram.property = /^\s*[+\-#~]?\s*\w+(\s*:\s*\w+)?\s*$/\<close>.
\<close>

definition simple_classDiagram_classDef :: regexp where
  "simple_classDiagram_classDef = RegExp (cat [Bol, str ''class'', Plus sp, Plus wd,
     Opt (alts [cat [Plus sp, str ''<|-'', Star Dot],
                cat [Star sp, bracketed (CHR ''{'') (CHR ''}'')]]),
     Star sp, Eol]) True"

definition simple_classDiagram_relation :: regexp where
  "simple_classDiagram_relation = RegExp (cat [Bol, Star sp, Plus wd, Star sp,
     alts [str ''--'', str ''...'', str ''<|--'', str ''*--'', str ''o--'', str ''|...''],
     Star sp, Plus wd, Star sp, Eol]) True"

definition simple_classDiagram_method :: regexp where
  "simple_classDiagram_method = RegExp (cat [Bol, Star sp, Opt (oneOf ''+-#~''), Star sp,
     Plus wd, bracketed (CHR ''('') (CHR '')''),
     Opt (cat [Star sp, Lit (CHR '':''), Star sp, Plus wd]), Star sp, Eol]) False"

definition simple_classDiagram_property :: regexp where
  "simple_classDiagram_property = RegExp (cat [Bol, Star sp, Opt (oneOf ''+-#~''), Star sp,
     Plus wd, Opt (cat [Star sp, Lit (CHR '':''), Star sp, Plus wd]), Star sp, Eol]) False"

text \<open>
  \<^verbatim>\<open>stateDiagram.state = /^\s*\[?\*?\]?\s*-->\s*\w+(\s*:\s*.+?)?\s*$/i\<close>,
  \<^verbatim>\<open>stateDiagram.transition = /^\s*(\w+|\[*\]?)\s*-->\s*(\w+|\[*\]?)(\s*:\s*.+?)?\s*$/i\<close>,
  \<^verbatim>\<open>stateDiagram.initial = /^\s*\[\*\]\s*-->\s*\w+\s*$/i\<close>,
  \<^verbatim>\<open>stateDiagram.final = /^\s*\w+\s*-->\s*\[\*\]\s*$/i\<close>.
\<close>

definition state_label :: rx where
  "state_label = Opt (cat [Star sp, Lit (CHR '':''), Star sp, Plus Dot])"

definition state_end :: rx where
  "state_end = alts [Plus wd, cat [Star (Lit (CHR ''['')), Opt (Lit (CHR '']''))]]"

definition simple_stateDiagram_state :: regexp where
  "simple_stateDiagram_state = RegExp (cat [Bol, Star sp, Opt (Lit (CHR ''['')),
     Opt (Lit (CHR ''*'')), Opt (Lit (CHR '']'')), Star sp, str ''-->'', Star sp, Plus wd,
     state_label, Star sp, Eol]) True"

definition simple_stateDiagram_transition :: regexp where
  "simple_stateDiagram_transition = RegExp (cat [Bol, Star sp, state_end, Star sp,
     str ''-->'', Star sp, state_end, state_label, Star sp, Eol]) True"

definition simple_stateDiagram_initial :: regexp where
  "simple_stateDiagram_initial = RegExp (cat [Bol, Star sp, str ''[*]'', Star sp, str ''-->'',
     Star sp, Plus wd, Star sp, Eol]) True"

definition simple_stateDiagram_final :: regexp where
  "simple_stateDiagram_final = RegExp (cat [Bol, Star sp, Plus wd, Star sp, str ''-->'',
     Star sp, str ''[*]'', Star sp, Eol]) True"

text \<open>
  \<^verbatim>\<open>erDiagram.entity = /^(\w+)\s*\{\s*$/\<close>,
  \<^verbatim>\<open>erDiagram.attribute = /^\s*(\w+)\s+(\w+)(\s+(PK|FK))?\s*$/\<close>,
  \<^verbatim>\<open>erDiagram.relationship = /^\s*(\w+)\s*(\|\||\{o|o\||}o|o{|\|\}|}\||\{\{)\s*(\w+)\s*:\s*(.+?)\s*$/\<close>,
  \<^verbatim>\<open>erDiagram.endEntity = /^\s*\}\s*$/\<close>,
  \<^verbatim>\<open>erDiagram.simpleRelationship = /^\s*(\w+)\s*(\|\||\{o|o\||}o|o{|\|\}|}\||\{\{)\s*(\w+)\s*$/\<close>.
\<close>

definition simple_erDiagram_entity :: regexp where
  "simple_erDiagram_entity =
     RegExp (cat [Bol, Plus wd, Star sp, Lit (CHR ''{''), Star sp, Eol]) False"

definition simple_erDiagram_attribute :: regexp where
  "simple_erDiagram_attribute = RegExp (cat [Bol, Star sp, Plus wd, Plus sp, Plus wd,
     Opt (cat [Plus sp, alts [str ''PK'', str ''FK'']]), Star sp, Eol]) False"

definition simple_erDiagram_relationship :: regexp where
  "simple_erDiagram_relationship = RegExp (cat [Bol, Star sp, Plus wd, Star sp,
     er_cardinality, Star sp, Plus wd, Star sp, Lit (CHR '':''), Star sp, Plus Dot, Star sp,
     Eol]) False"

definition simple_erDiagram_endEntity :: regexp where
  "simple_erDiagram_endEntity = RegExp (cat [Bol, Star sp, Lit (CHR ''}''), Star sp, Eol]) False"

definition simple_erDiagram_simpleRelationship :: regexp where
  "simple_erDiagram_simpleRelationship = RegExp (cat [Bol, Star sp, Plus wd, Star sp,
     er_cardinality, Star sp, Plus wd, Star sp, Eol]) False"

text \<open>
  \<^verbatim>\<open>gantt.title = /^title\s+(.+?)\s*$/i\<close>, \<^verbatim>\<open>gantt.dateFormat = /^dateFormat\s+(.+?)\s*$/i\<close>,
  \<^verbatim>\<open>gantt.section = /^section\s+(.+?)\s*$/i\<close>,
  \<^verbatim>\<open>gantt.task = /^\s*(\w+)\s*:\s*(.+?),\s*(.+?)(\s*,\s*(.+?))?\s*$/\<close>,
  \<^verbatim>\<open>gantt.milestone = /^\s*(\w+)\s*:\s*milestone,\s*(.+?)\s*$/\<close>;
  \<^verbatim>\<open>journey.title\<close> and \<^verbatim>\<open>journey.section\<close> as for gantt,
  \<^verbatim>\<open>journey.task = /^\s*(.+?)\s*:\s*(\d+)\s*:\s*(.+?)\s*$/\<close>;
  \<^verbatim>\<open>pie.data = /^\s*"(.*?)"\s*:\s*(\d+)\s*$/\<close>.
\<close>

definition simple_gantt_title :: regexp where
  "simple_gantt_title = keyword_arg ''title''"

definition simple_gantt_dateFormat :: regexp where
  "simple_gantt_dateFormat = keyword_arg ''dateFormat''"

definition simple_gantt_section :: regexp where
  "simple_gantt_section = keyword_arg ''section''"

definition simple_gantt_task :: regexp where
  "simple_gantt_task = RegExp (cat [Bol, Star sp, Plus wd, Star sp, Lit (CHR '':''), Star sp,
     Plus Dot, Lit (CHR '',''), Star sp, Plus Dot,
     Opt (cat [Star sp, Lit (CHR '',''), Star sp, Plus Dot]), Star sp, Eol]) False"

definition simple_gantt_milestone :: regexp where
  "simple_gantt_milestone = RegExp (cat [Bol, Star sp, Plus wd, Star sp, Lit (CHR '':''),
     Star sp, str ''milestone,'', Star sp, Plus Dot, Star sp, Eol]) False"

definition simple_journey_title :: regexp where
  "simple_journey_title = keyword_arg ''title''"

definition simple_journey_section :: regexp where
  "simple_journey_section = keyword_arg ''section''"

definition simple_journey_task :: regexp where
  "simple_journey_task = RegExp (cat [Bol, Star sp, Plus Dot, Star sp, Lit (CHR '':''),
     Star sp, Plus dg, Star sp, Lit (CHR '':''), Star sp, Plus Dot, Star sp, Eol]) False"

definition simple_pie_data :: regexp where
  "simple_pie_data = RegExp (cat [Bol, Star sp, Lit (CHR 0x22), Star Dot, Lit (CHR 0x22),
     Star sp, Lit (CHR '':''), Star sp, Plus dg, Star sp, Eol]) False"

text \<open>
  \<^verbatim>\<open>gitGraph.commit = /^\s*commit\s*(?:type:\s*(\w+))?\s*$/i\<close>,
  \<^verbatim>\<open>gitGraph.branch = /^\s*branch\s+(.+?)\s*$/i\<close>, and the same shape for
  \<^verbatim>\<open>checkout\<close>, \<^verbatim>\<open>merge\<close> and \<^verbatim>\<open>cherry-pick\<close>;
  \<^verbatim>\<open>mindmap.node = /^\s*([\s]*)([\+\-\*])(.+?)(\(\(.*?\)\))?(\[.*?\])?(\{.*?\})?\s*$/\<close>.
\<close>

definition simple_gitGraph_commit :: regexp where
  "simple_gitGraph_commit = RegExp (cat [Bol, Star sp, str ''commit'', Star sp,
     Opt (cat [str ''type:'', Star sp, Plus wd]), Star sp, Eol]) True"

definition simple_gitGraph_branch :: regexp where
  "simple_gitGraph_branch = indented_keyword_arg ''branch''"

definition simple_gitGraph_checkout :: regexp where
  "simple_gitGraph_checkout = indented_keyword_arg ''checkout''"

definition simple_gitGraph_merge :: regexp where
  "simple_gitGraph_merge = indented_keyword_arg ''merge''"

definition simple_gitGraph_cherryPick :: regexp where
  "simple_gitGraph_cherryPick = indented_keyword_arg ''cherry-pick''"

definition simple_mindmap_node :: regexp where
  "simple_mindmap_node = RegExp (cat [Bol, Star sp, Star sp, oneOf ''+-*'', Plus Dot,
     Opt (cat [str ''(('', Star Dot, str ''))'']),
     Opt (cat [Lit (CHR ''[''), Star Dot, Lit (CHR '']'')]),
     Opt (cat [Lit (CHR ''{''), Star Dot, Lit (CHR ''}'')]),
     Star sp, Eol]) False"

subsection \<open>Its dialect validators\<close>

text \<open>
  The ten methods \<^verbatim>\<open>validateGraph\<close> ... \<^verbatim>\<open>validateMindmap\<close> run the same loop
  over their own rules: skip a line that is empty after trimming or a comment, set
  \<^verbatim>\<open>hasType\<close> on a declaration line, accept a line that matches one of the line rules,
  and return the syntax diagnostic at the first other line. \<open>simple_scan\<close> is that loop;
  it ends with the index and trimmed text of the rejected line, or with the flags. The
  second flag records that some line matched a line rule: \<^verbatim>\<open>validatePie\<close> reads it as
  \<^verbatim>\<open>hasData\<close> (\<^verbatim>\<open>validateGraph\<close> sets two such flags and reads neither).
\<close>

datatype scan_outcome = Rejected nat string | Completed bool bool

fun simple_scan ::
  "regexp \<Rightarrow> regexp list \<Rightarrow> nat \<Rightarrow> bool \<Rightarrow> bool \<Rightarrow> string list \<Rightarrow> scan_outcome" where
  "simple_scan tp rules i hasType hasLine [] = Completed hasType hasLine"
| "simple_scan tp rules i hasType hasLine (l # ls) =
     (if trim l = [] \<or> startsWith ''%%'' (trim l)
        then simple_scan tp rules (i + 1) hasType hasLine ls
      else if test tp (trim l) then simple_scan tp rules (i + 1) True hasLine ls
      else if list_ex (\<lambda>r. test r (trim l)) rules
        then simple_scan tp rules (i + 1) hasType True ls
      else Rejected i (trim l))"

definition simple_syntax_error :: "string \<Rightarrow> string \<Rightarrow> nat \<Rightarrow> string \<Rightarrow> result" where
  "simple_syntax_error what hint i t =
     \<lparr>isValid = False,
      error = Some (''Invalid '' @ what @ '' syntax: '' @ [CHR 0x22] @ t @ [CHR 0x22]),
      type = Some ''syntax'', line = Some (i + 1), suggestion = Some hint\<rparr>"

definition simple_no_type :: "string \<Rightarrow> string \<Rightarrow> result" where
  "simple_no_type msg hint =
     \<lparr>isValid = False, error = Some msg, type = Some ''no_type'', line = Some 1,
      suggestion = Some hint\<rparr>"

text \<open>The common end of nine of the methods: the check of \<^verbatim>\<open>hasType\<close>.\<close>

definition simple_finish ::
  "string \<Rightarrow> string \<Rightarrow> string \<Rightarrow> string \<Rightarrow> scan_outcome \<Rightarrow> result" where
  "simple_finish what hint msg typeHint out =
     (case out of
        Rejected i t \<Rightarrow> simple_syntax_error what hint i t
      | Completed hasType hasLine \<Rightarrow>
          if \<not> hasType then simple_no_type msg typeHint else valid_result)"

definition validateGraph :: "string list \<Rightarrow> result" where
  "validateGraph ls =
     simple_finish ''graph''
       ''Check graph syntax. Valid formats: A[Text], A --> B, subgraph Title''
       ''Missing graph type declaration''
       (''Add '' @ [CHR 0x22] @ ''graph TB'' @ [CHR 0x22] @ '' or '' @ [CHR 0x22] @ ''graph TD''
          @ [CHR 0x22] @ '' at the beginning'')
       (simple_scan graph_types
          [simple_graph_subgraph, simple_graph_endSubgraph, simple_graph_node,
           simple_graph_connection] 0 False False ls)"

definition validateSequence :: "string list \<Rightarrow> result" where
  "validateSequence ls =
     simple_finish ''sequence diagram''
       ''Check sequence diagram syntax. Valid formats: A->>B: Message, participant A as Alice''
       ''Missing sequence diagram declaration''
       (''Add '' @ [CHR 0x22] @ ''sequenceDiagram'' @ [CHR 0x22] @ '' at the beginning'')
       (simple_scan sequence_type
          [simple_sequence_participant, simple_sequence_message, simple_sequence_note,
           simple_sequence_loop, simple_sequence_alt, simple_sequence_else,
           simple_sequence_end] 0 False False ls)"

definition validateClassDiagram :: "string list \<Rightarrow> result" where
  "validateClassDiagram ls =
     simple_finish ''class diagram''
       ''Check class diagram syntax. Valid formats: class ClassName, A --> B''
       ''Missing class diagram declaration''
       (''Add '' @ [CHR 0x22] @ ''classDiagram'' @ [CHR 0x22] @ '' at the beginning'')
       (simple_scan classDiagram_type
          [simple_classDiagram_classDef, simple_classDiagram_relation,
           simple_classDiagram_method, simple_classDiagram_property] 0 False False ls)"

definition validateStateDiagram :: "string list \<Rightarrow> result" where
  "validateStateDiagram ls =
     simple_finish ''state diagram''
       ''Check state diagram syntax. Valid formats: [*] --> State, State1 --> State2''
       ''Missing state diagram declaration''
       (''Add '' @ [CHR 0x22] @ ''stateDiagram'' @ [CHR 0x22] @ '' or '' @ [CHR 0x22]
          @ ''stateDiagram-v2'' @ [CHR 0x22] @ '' at the beginning'')
       (simple_scan stateDiagram_type
          [simple_stateDiagram_state, simple_stateDiagram_transition,
           simple_stateDiagram_initial, simple_stateDiagram_final] 0 False False ls)"

definition validateERDiagram :: "string list \<Rightarrow> result" where
  "validateERDiagram ls =
     simple_finish ''ER diagram''
       ''Check ER diagram syntax. Valid formats: ENTITY { }, ENTITY ||--o{ ENTITY : relationship''
       ''Missing ER diagram declaration''
       (''Add '' @ [CHR 0x22] @ ''erDiagram'' @ [CHR 0x22] @ '' at the beginning'')
       (simple_scan erDiagram_type
          [simple_erDiagram_entity, simple_erDiagram_attribute, simple_erDiagram_relationship,
           simple_erDiagram_simpleRelationship, simple_erDiagram_endEntity] 0 False False ls)"

definition validateGantt :: "string list \<Rightarrow> result" where
  "validateGantt ls =
     simple_finish ''Gantt chart''
       ''Check Gantt chart syntax. Valid formats: title Text, section Name, task : id, date, duration''
       ''Missing Gantt chart declaration''
       (''Add '' @ [CHR 0x22] @ ''gantt'' @ [CHR 0x22] @ '' at the beginning'')
       (simple_scan gantt_type
          [simple_gantt_title, simple_gantt_dateFormat, simple_gantt_section,
           simple_gantt_task, simple_gantt_milestone] 0 False False ls)"

definition validateJourney :: "string list \<Rightarrow> result" where
  "validateJourney ls =
     simple_finish ''journey diagram''
       ''Check journey diagram syntax. Valid formats: title Text, section Name, Task: score: User''
       ''Missing journey diagram declaration''
       (''Add '' @ [CHR 0x22] @ ''journey'' @ [CHR 0x22] @ '' at the beginning'')
       (simple_scan journey_type
          [simple_journey_title, simple_journey_section, simple_journey_task]
          0 False False ls)"

text \<open>\<^verbatim>\<open>validatePie\<close> checks \<^verbatim>\<open>hasType\<close> and then \<^verbatim>\<open>hasData\<close>.\<close>

definition pie_no_data :: result where
  "pie_no_data =
     \<lparr>isValid = False, error = Some ''No data found in pie chart'',
      type = Some ''no_data'', line = Some 2,
      suggestion = Some (''Add data in format: '' @ [CHR 0x22] @ ''Label'' @ [CHR 0x22]
                         @ '' : value'')\<rparr>"

definition validatePie :: "string list \<Rightarrow> result" where
  "validatePie ls =
     (case simple_scan pie_type [simple_pie_data] 0 False False ls of
        Rejected i t \<Rightarrow>
          simple_syntax_error ''pie chart''
            (''Check pie chart syntax. Valid formats: '' @ [CHR 0x22] @ ''Label'' @ [CHR 0x22]
               @ '' : value'') i t
      | Completed hasType hasData \<Rightarrow>
          if \<not> hasType then
            simple_no_type ''Missing pie chart declaration''
              (''Add '' @ [CHR 0x22] @ ''pie'' @ [CHR 0x22] @ '' or '' @ [CHR 0x22]
                 @ ''pie title Text'' @ [CHR 0x22] @ '' at the beginning'')
          else if \<not> hasData then pie_no_data
          else valid_result)"

definition validateGitGraph :: "string list \<Rightarrow> result" where
  "validateGitGraph ls =
     simple_finish ''Git graph''
       ''Check Git graph syntax. Valid formats: commit, branch name, checkout name, merge name''
       ''Missing Git graph declaration''
       (''Add '' @ [CHR 0x22] @ ''gitGraph'' @ [CHR 0x22] @ '' at the beginning'')
       (simple_scan gitGraph_type
          [simple_gitGraph_commit, simple_gitGraph_branch, simple_gitGraph_checkout,
           simple_gitGraph_merge, simple_gitGraph_cherryPick] 0 False False ls)"

definition validateMindmap :: "string list \<Rightarrow> result" where
  "validateMindmap ls =
     simple_finish ''mind map''
       ''Check mind map syntax. Use indentation and +, -, or * for hierarchy''
       ''Missing mind map declaration''
       (''Add '' @ [CHR 0x22] @ ''mindmap'' @ [CHR 0x22] @ '' at the beginning'')
       (simple_scan mindmap_type [simple_mindmap_node] 0 False False ls)"

text \<open>
  \<^verbatim>\<open>validateByType\<close> dispatches on the detected type; its \<^verbatim>\<open>default\<close> branch
  (\<^verbatim>\<open>unsupported\<close>) needs a type outside the table and is not reached.
\<close>

fun simple_validateByType :: "dialect \<Rightarrow> string list \<Rightarrow> result" where
  "simple_validateByType Graph ls = validateGraph ls"
| "simple_validateByType Sequence ls = validateSequence ls"
| "simple_validateByType ClassDiagram ls = validateClassDiagram ls"
| "simple_validateByType StateDiagram ls = validateStateDiagram ls"
| "simple_validateByType ErDiagram ls = validateERDiagram ls"
| "simple_validateByType Gantt ls = validateGantt ls"
| "simple_validateByType Journey ls = validateJourney ls"
| "simple_validateByType Pie ls = validatePie ls"
| "simple_validateByType GitGraph ls = validateGitGraph ls"
| "simple_validateByType Mindmap ls = validateMindmap ls"

definition simple_validateText :: "int \<Rightarrow> int \<Rightarrow> string \<Rightarrow> diagnostic" where
  "simple_validateText t0 t1 s =
     (case detectDiagramType (split s) of
        None \<Rightarrow> no_type_detected (t1 - t0)
      | Some d \<Rightarrow>
          spread (simple_validateByType d (split s)) (t1 - t0) (name d)
            (countElements (split s)))"

definition simple_validateSyntax :: "int \<Rightarrow> int \<Rightarrow> jsvalue \<Rightarrow> diagnostic" where
  "simple_validateSyntax t0 t1 v =
     (if rejected_input v then input_error
      else (case v of JString s \<Rightarrow> simple_validateText t0 t1 s | _ \<Rightarrow> input_error))"


section \<open>The error classifier of the parser-backed validator\<close>

text \<open>
  \<^verbatim>\<open>MermaidValidator._classifyError\<close> and \<^verbatim>\<open>_getSuggestion\<close> read
  \<^verbatim>\<open>error.message?.toLowerCase() || ''\<close>; the argument is the message, \<open>None\<close> when
  the error has none.
\<close>

definition lowered_message :: "string option \<Rightarrow> string" where
  "lowered_message m = (case m of None \<Rightarrow> [] | Some s \<Rightarrow> toLowerCase s)"

definition classifyError :: "string option \<Rightarrow> string" where
  "classifyError m =
     (let message = lowered_message m in
      if includes_str ''syntax error'' message then ''syntax''
      else if includes_str ''no diagram type'' message then ''no_type''
      else if includes_str ''unknown'' message then ''unknown_command''
      else if includes_str ''parse'' message then ''parse''
      else if includes_str ''identifier'' message then ''identifier''
      else if includes_str ''relation'' message then ''relation''
      else ''general'')"

text \<open>The object \<^verbatim>\<open>suggestions\<close>, in the order of its keys.\<close>

definition suggestions :: "(string \<times> string) list" where
  "suggestions =
     [(''syntax'', ''Check for missing semicolons, brackets, or incorrect syntax''),
      (''no_type'', ''Add a diagram type at the beginning (e.g., graph TD, sequenceDiagram)''),
      (''unknown_command'', ''Verify the command is supported in your Mermaid version''),
      (''parse'', ''Check the structure and syntax of your diagram''),
      (''identifier'', ''Ensure all identifiers are valid and properly referenced''),
      (''relation'', ''Check arrow syntax and node connections''),
      (''general'', ''Review the diagram syntax and structure'')]"

text \<open>\<^verbatim>\<open>suggestions[errorType] || suggestions.general\<close>\<close>

definition getSuggestion :: "string option \<Rightarrow> string" where
  "getSuggestion m =
     (case map_of suggestions (classifyError m) of
        Some s \<Rightarrow> s
      | None \<Rightarrow> ''Review the diagram syntax and structure'')"

section \<open>Notions used to state the properties\<close>

text \<open>
  The declaration rule of each dialect (the entry \<^verbatim>\<open>types\<close> of \<^verbatim>\<open>graph\<close>, the
  entry \<^verbatim>\<open>type\<close> of the others), and the order in which the detector tests them.
\<close>

fun declaration_rule :: "dialect \<Rightarrow> regexp" where
  "declaration_rule Graph = graph_types"
| "declaration_rule Sequence = sequence_type"
| "declaration_rule ClassDiagram = classDiagram_type"
| "declaration_rule StateDiagram = stateDiagram_type"
| "declaration_rule ErDiagram = erDiagram_type"
| "declaration_rule Gantt = gantt_type"
| "declaration_rule Journey = journey_type"
| "declaration_rule Pie = pie_type"
| "declaration_rule GitGraph = gitGraph_type"
| "declaration_rule Mindmap = mindmap_type"

definition detection_order :: "dialect list" where
  "detection_order = [Graph, Sequence, ClassDiagram, StateDiagram, ErDiagram, Gantt, Journey,
                      Pie, GitGraph, Mindmap]"

text \<open>
  Type detection as the specification words it: drop the lines that are empty after
  trimming or whose trimmed text starts with the comment marker; with none left the answer
  is unknown; otherwise the first dialect, in the given order, whose declaration rule
  matches the trimmed, lower-cased first remaining line.
\<close>

definition detect_in_order :: "dialect list \<Rightarrow> string list \<Rightarrow> dialect option" where
  "detect_in_order order ls =
     (case filter (\<lambda>l. \<not> (trim l = [] \<or> startsWith ''%%'' (trim l))) ls of
        [] \<Rightarrow> None
      | l # rest \<Rightarrow> find (\<lambda>d. test (declaration_rule d) (toLowerCase (trim l))) order)"

text \<open>The first two code units of a line, in upper case, and those each declaration starts with.\<close>

definition head2 :: "string \<Rightarrow> string" where
  "head2 s = map asciiUpper (take 2 s)"

fun heads :: "dialect \<Rightarrow> string list" where
  "heads Graph = [''GR'', ''FL'']"
| "heads Sequence = [''SE'']"
| "heads ClassDiagram = [''CL'']"
| "heads StateDiagram = [''ST'']"
| "heads ErDiagram = [''ER'']"
| "heads Gantt = [''GA'']"
| "heads Journey = [''JO'']"
| "heads Pie = [''PI'']"
| "heads GitGraph = [''GI'']"
| "heads Mindmap = [''MI'']"

text \<open>
  The rules of a dialect: every rule of its entry in the table of the flexible validator.
  An offending line is a line that is not blank, not a comment, and matches none of them.
\<close>

fun flexible_rules :: "dialect \<Rightarrow> regexp list" where
  "flexible_rules Graph =
     [graph_types, flexible_graph_validLine, comment_rule, flexible_graph_subgraph,
      flexible_graph_end]"
| "flexible_rules Sequence = [sequence_type, flexible_sequence_validLine, comment_rule]"
| "flexible_rules ClassDiagram =
     [classDiagram_type, flexible_classDiagram_validLine, comment_rule]"
| "flexible_rules StateDiagram =
     [stateDiagram_type, flexible_stateDiagram_validLine, comment_rule]"
| "flexible_rules ErDiagram = [erDiagram_type, flexible_erDiagram_validLine, comment_rule]"
| "flexible_rules Gantt = [gantt_type, flexible_gantt_validLine, comment_rule]"
| "flexible_rules Journey = [journey_type, flexible_journey_validLine, comment_rule]"
| "flexible_rules Pie = [pie_type, flexible_pie_validLine, comment_rule]"
| "flexible_rules GitGraph = [gitGraph_type, flexible_gitGraph_validLine, comment_rule]"
| "flexible_rules Mindmap = [mindmap_type, flexible_mindmap_validLine, comment_rule]"

definition offending :: "dialect \<Rightarrow> string \<Rightarrow> bool" where
  "offending d l =
     (trim l \<noteq> [] \<and> \<not> startsWith ''%%'' (trim l)
      \<and> \<not> list_ex (\<lambda>r. test r (trim l)) (flexible_rules d))"

text \<open>
  A line the flexible scan rejects: meaningful, and passing neither its look-up of the
  declaration rule nor its check of the line rules. \<open>first_offending\<close> is the 0-based
  index of the first one. (That these are the offending lines is proved below.)
\<close>

definition flexible_offending :: "dialect \<Rightarrow> string \<Rightarrow> bool" where
  "flexible_offending d l =
     (meaningful l \<and> \<not> flexible_isTypeLine d (trim l) \<and> \<not> flexible_isValidLine d (trim l))"

fun first_offending :: "dialect \<Rightarrow> string list \<Rightarrow> nat option" where
  "first_offending d [] = None"
| "first_offending d (l # ls) =
     (if flexible_offending d l then Some 0 else map_option Suc (first_offending d ls))"

definition flexible_declared :: "dialect \<Rightarrow> string list \<Rightarrow> bool" where
  "flexible_declared d ls = list_ex (\<lambda>l. meaningful l \<and> flexible_isTypeLine d (trim l)) ls"

text \<open>
  The character class of \<^verbatim>\<open>graph.validLine\<close>; letters and white space; a rule that
  consumes only code units with a given property; a rule that matches up to the end of the
  subject.
\<close>

definition graph_line_class :: "citem list" where
  "graph_line_class =
     [CRng (CHR ''A'') (CHR ''Z''), CRng (CHR ''a'') (CHR ''z''),
      CRng (CHR ''0'') (CHR ''9''), CChr (CHR ''_''), CSpace,
      CChr (CHR ''[''), CChr (CHR '']''), CChr (CHR ''(''), CChr (CHR '')''),
      CChr (CHR ''{''), CChr (CHR ''}''), CChr (CHR ''<''), CChr (CHR ''>''),
      CChr (CHR 0x22), CChr (CHR 0x27), CChr (CHR '':''), CChr (CHR ''|''),
      CChr (CHR ''+''), CChr (CHR ''-''), CChr (CHR ''*''), CChr (CHR ''/''),
      CChr (CHR 0x5C), CChr (CHR ''.''), CChr (CHR '',''), CChr (CHR ''-''),
      CChr (CHR ''>'')]"

definition letter_or_space :: "char \<Rightarrow> bool" where
  "letter_or_space c =
     (inRange (CHR ''a'') (CHR ''z'') c \<or> inRange (CHR ''A'') (CHR ''Z'') c \<or> isWhiteSpace c)"

fun only :: "bool \<Rightarrow> (char \<Rightarrow> bool) \<Rightarrow> rx \<Rightarrow> bool" where
  "only ic P Eps = True"
| "only ic P (Lit a) = (\<forall>c. chr_eq ic a c \<longrightarrow> P c)"
| "only ic P Dot = (\<forall>c. \<not> isLineTerminator c \<longrightarrow> P c)"
| "only ic P (Cls items) = (\<forall>c. cls_has ic items c \<longrightarrow> P c)"
| "only ic P (NCls items) = (\<forall>c. \<not> cls_has ic items c \<longrightarrow> P c)"
| "only ic P Bol = True"
| "only ic P Eol = True"
| "only ic P WordB = True"
| "only ic P (Seq a b) = (only ic P a \<and> only ic P b)"
| "only ic P (Alt a b) = (only ic P a \<and> only ic P b)"
| "only ic P (Opt a) = only ic P a"
| "only ic P (Star a) = only ic P a"
| "only ic P (Plus a) = only ic P a"

fun to_the_end :: "rx \<Rightarrow> bool" where
  "to_the_end Eol = True"
| "to_the_end (Seq a b) = to_the_end b"
| "to_the_end (Alt a b) = (to_the_end a \<and> to_the_end b)"
| "to_the_end r = False"

text \<open>
  Comment lines, the text without them, and the position of the line \<open>k\<close> (1-based) among
  the lines that are not comments.
\<close>

definition strip_comments :: "string list \<Rightarrow> string list" where
  "strip_comments ls = filter (\<lambda>l. \<not> isComment l) ls"

definition content_index :: "string list \<Rightarrow> nat \<Rightarrow> nat" where
  "content_index ls k = length (strip_comments (take k ls))"

definition same_failure_line :: "string list \<Rightarrow> diagnostic \<Rightarrow> string list \<Rightarrow> diagnostic \<Rightarrow> bool" where
  "same_failure_line ls r ls' r' =
     (if type r = Some ''syntax''
      then map_option (content_index ls) (line r) = map_option (content_index ls') (line r')
      else line r = line r')"

text \<open>
  The classifier as the specification words it: ordered substring tests on the lower-cased
  message, the first hit wins, \<^verbatim>\<open>general\<close> without a hit.
\<close>

definition classification_order :: "(string \<times> string) list" where
  "classification_order =
     [(''syntax error'', ''syntax''), (''no diagram type'', ''no_type''),
      (''unknown'', ''unknown_command''), (''parse'', ''parse''),
      (''identifier'', ''identifier''), (''relation'', ''relation'')]"

definition first_hit :: "string \<Rightarrow> string" where
  "first_hit msg =
     (case find (\<lambda>(needle, kind). includes_str needle msg) classification_order of
        Some (needle, kind) \<Rightarrow> kind
      | None \<Rightarrow> ''general'')"

text \<open>Every error field of a result is \<^verbatim>\<open>null\<close>.\<close>

definition error_fields_null :: "'a result_scheme \<Rightarrow> bool" where
  "error_fields_null r =
     (error r = None \<and> type r = None \<and> line r = None \<and> suggestion r = None)"

text \<open>The inputs of the concrete scenarios.\<close>

definition flowchart_example :: string where
  "flowchart_example =
     ''graph TD'' @ [CHR 0x0A] @ ''    A[Start] --> B{Decision}'' @ [CHR 0x0A]
     @ ''    B -->|Yes| C[Process]'' @ [CHR 0x0A] @ ''    B -->|No| D[End]'' @ [CHR 0x0A]
     @ ''    C --> D''"

definition pie_declaration_only :: string where
  "pie_declaration_only = ''pie title Pets''"

definition pie_bad_line_example :: string where
  "pie_bad_line_example = ''pie'' @ [CHR 0x0A] @ ''  slices = 3'' @ [CHR 0x0A] @ ''  also bad''"


definition pie_bad_line_commented :: string where
  "pie_bad_line_commented =
     ''%% chart'' @ [CHR 0x0A] @ ''pie'' @ [CHR 0x0A] @ ''  %% data'' @ [CHR 0x0A]
     @ ''  slices = 3'' @ [CHR 0x0A] @ ''  also bad''"


section \<open>The matcher computes the matches\<close>

inductive_cases m_EpsE: "matches ic Eps st st'"
inductive_cases m_LitE: "matches ic (Lit a) st st'"
inductive_cases m_DotE: "matches ic Dot st st'"
inductive_cases m_ClsE: "matches ic (Cls items) st st'"
inductive_cases m_NClsE: "matches ic (NCls items) st st'"
inductive_cases m_BolE: "matches ic Bol st st'"
inductive_cases m_EolE: "matches ic Eol st st'"
inductive_cases m_WordBE: "matches ic WordB st st'"
inductive_cases m_SeqE: "matches ic (Seq a b) st st'"
inductive_cases m_AltE: "matches ic (Alt a b) st st'"
inductive_cases m_OptE: "matches ic (Opt a) st st'"
inductive_cases m_PlusE: "matches ic (Plus a) st st'"

lemma matches_no_growth:
  "matches ic r st st' \<Longrightarrow> st' = st \<or> length (snd st') < length (snd st)"
  by (induction rule: matches.induct) auto

lemma iter_self: "st \<in> set (iter f n st)"
  by (cases n) simp_all

lemma iter_sound:
  assumes f: "\<And>st st'. st' \<in> set (f st) \<Longrightarrow> matches ic a st st'"
  shows "st' \<in> set (iter f n st) \<Longrightarrow> matches ic (Star a) st st'"
proof (induction n arbitrary: st)
  case 0
  then show ?case by (simp add: m_StarNil)
next
  case (Suc n)
  from Suc.prems have "st' = st
      \<or> (\<exists>st1\<in>set (f st). length (snd st1) < length (snd st) \<and> st' \<in> set (iter f n st1))"
    unfolding iter.simps set_remdups by auto
  then show ?case
  proof
    assume "st' = st"
    then show ?thesis by (simp add: m_StarNil)
  next
    assume "\<exists>st1\<in>set (f st). length (snd st1) < length (snd st) \<and> st' \<in> set (iter f n st1)"
    then obtain st1 where "st1 \<in> set (f st)" and "st' \<in> set (iter f n st1)" by blast
    then have "matches ic a st st1" and "matches ic (Star a) st1 st'"
      using f Suc.IH by blast+
    then show ?thesis by (rule m_StarStep)
  qed
qed

lemma iter_complete:
  assumes f: "\<And>st st'. matches ic a st st' \<Longrightarrow> st' \<in> set (f st)"
  shows "matches ic (Star a) st st' \<Longrightarrow> length (snd st) \<le> n \<Longrightarrow> st' \<in> set (iter f n st)"
proof (induction "Star a" st st' arbitrary: n rule: matches.induct)
  case (m_StarNil st)
  show ?case by (rule iter_self)
next
  case (m_StarStep st st1 st2)
  from m_StarStep.hyps(1) have "st1 = st \<or> length (snd st1) < length (snd st)"
    by (rule matches_no_growth)
  then show ?case
  proof
    assume "st1 = st"
    with m_StarStep show ?thesis by simp
  next
    assume less: "length (snd st1) < length (snd st)"
    with m_StarStep.prems obtain m where n: "n = Suc m" and m: "length (snd st1) \<le> m"
      by (cases n) auto
    have "st1 \<in> set (f st)" using m_StarStep.hyps(1) by (rule f)
    moreover have "st2 \<in> set (iter f m st1)" using m m_StarStep.hyps by blast
    ultimately have "\<exists>x\<in>set (filter (\<lambda>st'. length (snd st') < length (snd st)) (f st)).
                       st2 \<in> set (iter f m x)"
      using less by (intro bexI [of _ st1]) simp_all
    then have "st2 \<in> set (st # concat (map (iter f m)
        (filter (\<lambda>st'. length (snd st') < length (snd st)) (f st))))"
      by (simp only: set_concat set_map list.set) blast
    then show ?thesis
      unfolding n iter.simps set_remdups .
  qed
qed

text \<open>The positions the matcher lists are exactly the ends of the matches.\<close>

lemma ends_iff_matches: "st' \<in> set (ends ic r st) \<longleftrightarrow> matches ic r st st'"
proof (induction r arbitrary: st st')
  case Eps
  then show ?case by (auto intro: matches.intros elim: m_EpsE)
next
  case (Lit a)
  then show ?case
    by (cases st) (auto simp: eat_def intro: matches.intros elim: m_LitE split: list.splits if_splits)
next
  case Dot
  then show ?case
    by (cases st) (auto simp: eat_def intro: matches.intros elim: m_DotE split: list.splits if_splits)
next
  case (Cls items)
  then show ?case
    by (cases st) (auto simp: eat_def intro: matches.intros elim: m_ClsE split: list.splits if_splits)
next
  case (NCls items)
  then show ?case
    by (cases st) (auto simp: eat_def intro: matches.intros elim: m_NClsE split: list.splits if_splits)
next
  case Bol
  then show ?case
    by (cases st) (auto intro: matches.intros elim: m_BolE split: if_splits)
next
  case Eol
  then show ?case
    by (cases st) (auto intro: matches.intros elim: m_EolE split: if_splits)
next
  case WordB
  then show ?case by (auto intro: matches.intros elim: m_WordBE split: if_splits)
next
  case (Seq a b)
  have "st' \<in> set (ends ic (Seq a b) st)
          \<longleftrightarrow> (\<exists>st1. st1 \<in> set (ends ic a st) \<and> st' \<in> set (ends ic b st1))"
    by auto
  also have "\<dots> \<longleftrightarrow> (\<exists>st1. matches ic a st st1 \<and> matches ic b st1 st')"
    by (simp only: Seq.IH)
  also have "\<dots> \<longleftrightarrow> matches ic (Seq a b) st st'"
    by (blast intro: m_Seq elim: m_SeqE)
  finally show ?case .
next
  case (Alt a b)
  have "st' \<in> set (ends ic (Alt a b) st)
          \<longleftrightarrow> st' \<in> set (ends ic a st) \<or> st' \<in> set (ends ic b st)"
    by auto
  also have "\<dots> \<longleftrightarrow> matches ic a st st' \<or> matches ic b st st'"
    by (simp only: Alt.IH)
  also have "\<dots> \<longleftrightarrow> matches ic (Alt a b) st st'"
    by (blast intro: m_AltL m_AltR elim: m_AltE)
  finally show ?case .
next
  case (Opt a)
  have "st' \<in> set (ends ic (Opt a) st) \<longleftrightarrow> st' = st \<or> st' \<in> set (ends ic a st)"
    unfolding ends.simps set_remdups by auto
  also have "\<dots> \<longleftrightarrow> st' = st \<or> matches ic a st st'"
    by (simp only: Opt.IH)
  also have "\<dots> \<longleftrightarrow> matches ic (Opt a) st st'"
    by (blast intro: m_OptNone m_OptSome elim: m_OptE)
  finally show ?case .
next
  case (Star a)
  show ?case
  proof
    assume "st' \<in> set (ends ic (Star a) st)"
    then show "matches ic (Star a) st st'"
      using iter_sound [of "ends ic a" ic a st' "length (snd st)" st] Star.IH by simp
  next
    assume "matches ic (Star a) st st'"
    then show "st' \<in> set (ends ic (Star a) st)"
      using iter_complete [of ic a "ends ic a" st st' "length (snd st)"] Star.IH by simp
  qed
next
  case (Plus a)
  show ?case
  proof
    assume "st' \<in> set (ends ic (Plus a) st)"
    then obtain st1 where "st1 \<in> set (ends ic a st)"
      and "st' \<in> set (iter (ends ic a) (length (snd st1)) st1)" by auto
    then show "matches ic (Plus a) st st'"
      using iter_sound [of "ends ic a" ic a st' "length (snd st1)" st1] Plus.IH
      by (auto intro: m_Plus)
  next
    assume "matches ic (Plus a) st st'"
    then obtain st1 where 1: "matches ic a st st1" and 2: "matches ic (Star a) st1 st'"
      by (auto elim: m_PlusE)
    from 2 have "st' \<in> set (iter (ends ic a) (length (snd st1)) st1)"
      using iter_complete [of ic a "ends ic a" st1 st' "length (snd st1)"] Plus.IH by simp
    moreover from 1 have "st1 \<in> set (ends ic a st)" by (simp only: Plus.IH)
    ultimately show "st' \<in> set (ends ic (Plus a) st)"
      unfolding ends.simps set_remdups by auto
  qed
qed

lemma search_iff:
  "search ic r p s \<longleftrightarrow>
     (\<exists>u v st'. s = u @ v \<and> matches ic r (if u = [] then p else Some (last u), v) st')"
proof (induction s arbitrary: p)
  case Nil
  have "ends ic r (p, []) \<noteq> [] \<longleftrightarrow> (\<exists>st'. matches ic r (p, []) st')"
    using ends_iff_matches [of _ ic r "(p, [])"] by (cases "ends ic r (p, [])") auto
  then show ?case by simp
next
  case (Cons c cs)
  have here: "ends ic r (p, c # cs) \<noteq> [] \<longleftrightarrow> (\<exists>st'. matches ic r (p, c # cs) st')"
    using ends_iff_matches [of _ ic r "(p, c # cs)"] by (cases "ends ic r (p, c # cs)") auto
  show ?case
  proof
    assume "search ic r p (c # cs)"
    then consider "\<exists>st'. matches ic r (p, c # cs) st'" | "search ic r (Some c) cs"
      using here by auto
    then show "\<exists>u v st'. c # cs = u @ v
                 \<and> matches ic r (if u = [] then p else Some (last u), v) st'"
    proof cases
      case 1
      then obtain st' where "matches ic r (p, c # cs) st'" by blast
      then have "c # cs = [] @ (c # cs)
                 \<and> matches ic r (if [] = ([]::string) then p else Some (last []), c # cs) st'"
        by simp
      then show ?thesis by blast
    next
      case 2
      then obtain u v st' where uv: "cs = u @ v"
        and m: "matches ic r (if u = [] then Some c else Some (last u), v) st'"
        using Cons.IH [of "Some c"] by blast
      have "c # cs = (c # u) @ v
            \<and> matches ic r (if c # u = [] then p else Some (last (c # u)), v) st'"
        using uv m by (cases "u = []") auto
      then show ?thesis by blast
    qed
  next
    assume "\<exists>u v st'. c # cs = u @ v
              \<and> matches ic r (if u = [] then p else Some (last u), v) st'"
    then obtain u v st' where uv: "c # cs = u @ v"
      and m: "matches ic r (if u = [] then p else Some (last u), v) st'" by blast
    show "search ic r p (c # cs)"
    proof (cases u)
      case Nil
      with uv m have "matches ic r (p, c # cs) st'" by simp
      with here have "ends ic r (p, c # cs) \<noteq> []" by blast
      then show ?thesis by simp
    next
      case (Cons x u')
      with uv have x: "x = c" "cs = u' @ v" by auto
      have "matches ic r (if u' = [] then Some c else Some (last u'), v) st'"
        using m Cons x by (cases "u' = []") auto
      then have "search ic r (Some c) cs"
        using Cons.IH [of "Some c"] x(2) by blast
      then show ?thesis by simp
    qed
  qed
qed

text \<open>\<^verbatim>\<open>test\<close> answers whether some substring of the subject matches.\<close>

lemma test_iff_matches:
  "test (RegExp r ic) s \<longleftrightarrow>
     (\<exists>u v st'. s = u @ v \<and> matches ic r (if u = [] then None else Some (last u), v) st')"
  by (simp add: test_def search_iff)


section \<open>The flowchart scenario\<close>

lemma flowchart_example_lines:
  "split flowchart_example =
     [''graph TD'', ''    A[Start] --> B{Decision}'', ''    B -->|Yes| C[Process]'',
      ''    B -->|No| D[End]'', ''    C --> D'']"
  unfolding flowchart_example_def by code_simp

lemma flowchart_example_detected:
  "detectDiagramType (split flowchart_example) = Some Graph"
  unfolding flowchart_example_lines by code_simp

lemma flowchart_example_count: "countElements (split flowchart_example) = 5"
  unfolding flowchart_example_lines by code_simp

lemma flowchart_example_flexible_scan:
  "flexible_validateByType Graph (split flowchart_example) = flexible_missing_type Graph"
  unfolding flowchart_example_lines by code_simp

lemma flowchart_example_simple_scan:
  "validateGraph (split flowchart_example) =
     simple_syntax_error ''graph''
       ''Check graph syntax. Valid formats: A[Text], A --> B, subgraph Title'' 1
       ''A[Start] --> B{Decision}''"
  unfolding flowchart_example_lines by code_simp

lemma flowchart_example_accepted_input: "\<not> rejected_input (JString flowchart_example)"
  unfolding flowchart_example_def by (simp add: rejected_input_def)

text \<open>
  C1. The specification expects the five-line flowchart
  \<^verbatim>\<open>graph TD / A[Start] --> B{Decision} / B -->|Yes| C[Process] / B -->|No| D[End] / C --> D\<close>
  to be valid, with diagram type \<^verbatim>\<open>graph\<close> and element count 5. The flexible validator
  detects \<^verbatim>\<open>graph\<close> and counts 5 elements, but its scan looks the declaration rule up
  under the key \<^verbatim>\<open>type\<close>, which the entry \<^verbatim>\<open>graph\<close> does not have: the flag
  \<^verbatim>\<open>hasType\<close> is never set and the diagnostic is \<^verbatim>\<open>no_type\<close>,
  \<^verbatim>\<open>Missing graph declaration\<close>, line 1.
\<close>

theorem flexible_rejects_flowchart_example:
  "flexible_validateSyntax t0 t1 (JString flowchart_example) =
     \<lparr>isValid = False, error = Some ''Missing graph declaration'', type = Some ''no_type'',
      line = Some 1,
      suggestion = Some (''Add '' @ [CHR 0x22] @ ''graph'' @ [CHR 0x22] @ '' at the beginning''),
      processingTime = t1 - t0, diagramType = ''graph'', elementCount = 5\<rparr>"
  by (simp add: flexible_validateSyntax_def flexible_validateText_def
      flowchart_example_accepted_input flowchart_example_detected flowchart_example_count
      flowchart_example_flexible_scan spread_def flexible_missing_type_def)

text \<open>
  The strict validator rejects the same text too, at its second line: neither
  \<^verbatim>\<open>graph.node\<close> nor \<^verbatim>\<open>graph.connection\<close> admits a connection between two
  bracketed nodes.
\<close>

lemma simple_rejects_flowchart_example:
  "simple_validateSyntax t0 t1 (JString flowchart_example) =
     \<lparr>isValid = False,
      error = Some (''Invalid graph syntax: '' @ [CHR 0x22] @ ''A[Start] --> B{Decision}''
                    @ [CHR 0x22]),
      type = Some ''syntax'', line = Some 2,
      suggestion = Some ''Check graph syntax. Valid formats: A[Text], A --> B, subgraph Title'',
      processingTime = t1 - t0, diagramType = ''graph'', elementCount = 5\<rparr>"
  by (simp add: simple_validateSyntax_def simple_validateText_def
      flowchart_example_accepted_input flowchart_example_detected flowchart_example_count
      flowchart_example_simple_scan spread_def simple_syntax_error_def)

section \<open>The guard of \<open>validateSyntax\<close>\<close>

lemma rejected_input_string: "rejected_input (JString s) = (s = [])"
  by (simp add: rejected_input_def)

lemma rejected_input_other: "\<forall>s. v \<noteq> JString s \<Longrightarrow> rejected_input v"
  by (cases v) (auto simp: rejected_input_def)

lemma not_rejected_is_string: "\<not> rejected_input v \<Longrightarrow> \<exists>s. v = JString s \<and> s \<noteq> []"
  by (cases v) (simp_all add: rejected_input_def)

lemma flexible_validateSyntax_string:
  "s \<noteq> [] \<Longrightarrow> flexible_validateSyntax t0 t1 (JString s) = flexible_validateText t0 t1 s"
  by (simp add: flexible_validateSyntax_def rejected_input_string)

lemma simple_validateSyntax_string:
  "s \<noteq> [] \<Longrightarrow> simple_validateSyntax t0 t1 (JString s) = simple_validateText t0 t1 s"
  by (simp add: simple_validateSyntax_def rejected_input_string)

lemma flexible_validateSyntax_rejected:
  "rejected_input v \<Longrightarrow> flexible_validateSyntax t0 t1 v = input_error"
  by (simp add: flexible_validateSyntax_def)

lemma simple_validateSyntax_rejected:
  "rejected_input v \<Longrightarrow> simple_validateSyntax t0 t1 v = input_error"
  by (simp add: simple_validateSyntax_def)

text \<open>
  C4. For every empty or non-string input both validators return the same fixed diagnostic:
  kind \<^verbatim>\<open>input_error\<close>, message \<^verbatim>\<open>Diagram code must be a non-empty string\<close>,
  processing time 0, diagram type \<^verbatim>\<open>unknown\<close>, element count 0. The diagnostic depends
  neither on the clock nor on any line of the input: no line is scanned.
\<close>

theorem empty_or_non_string_input_error:
  assumes "v = JString [] \<or> (\<forall>s. v \<noteq> JString s)"
  shows "flexible_validateSyntax t0 t1 v = input_error
       \<and> simple_validateSyntax t0 t1 v = input_error
       \<and> \<not> isValid input_error
       \<and> type input_error = Some ''input_error''
       \<and> error input_error = Some ''Diagram code must be a non-empty string''
       \<and> processingTime input_error = 0
       \<and> diagramType input_error = ''unknown''
       \<and> elementCount input_error = 0"
proof -
  have "rejected_input v"
    using assms rejected_input_other [of v] by (auto simp: rejected_input_string)
  then show ?thesis
    by (simp add: flexible_validateSyntax_rejected simple_validateSyntax_rejected
        input_error_def)
qed

theorem empty_or_non_string_input_error_witness:
  "(JNull = JString [] \<or> (\<forall>s. JNull \<noteq> JString s))
   \<and> flexible_validateSyntax 3 8 JNull = input_error
   \<and> simple_validateSyntax 3 8 JNull = input_error
   \<and> type input_error = Some ''input_error''
   \<and> processingTime input_error = 0"
  using empty_or_non_string_input_error [of JNull 3 8] by simp


section \<open>The diagnostic invariant\<close>

lemma flexible_scan_consistent:
  "isValid (flexible_scan d i h ls) = error_fields_null (flexible_scan d i h ls)"
  by (induction ls arbitrary: i h)
     (simp_all add: error_fields_null_def valid_result_def flexible_missing_type_def
        flexible_syntax_error_def)

lemma simple_finish_consistent:
  "isValid (simple_finish w h m th out) = error_fields_null (simple_finish w h m th out)"
  by (simp add: simple_finish_def error_fields_null_def valid_result_def simple_no_type_def
      simple_syntax_error_def split: scan_outcome.splits)

lemma validatePie_consistent: "isValid (validatePie ls) = error_fields_null (validatePie ls)"
  by (simp add: validatePie_def error_fields_null_def valid_result_def simple_no_type_def
      simple_syntax_error_def pie_no_data_def split: scan_outcome.splits)

lemma simple_validateByType_consistent:
  "isValid (simple_validateByType d ls) = error_fields_null (simple_validateByType d ls)"
  by (cases d)
     (simp_all add: validateGraph_def validateSequence_def validateClassDiagram_def
        validateStateDiagram_def validateERDiagram_def validateGantt_def validateJourney_def
        validateGitGraph_def validateMindmap_def simple_finish_consistent
        validatePie_consistent)

lemma spread_consistent:
  "isValid r = error_fields_null r \<Longrightarrow>
   isValid (spread r t d n) = error_fields_null (spread r t d n)"
  by (simp add: spread_def error_fields_null_def)

lemma input_error_consistent: "isValid input_error = error_fields_null input_error"
  by (simp add: input_error_def error_fields_null_def)

lemma no_type_detected_consistent:
  "isValid (no_type_detected t) = error_fields_null (no_type_detected t)"
  by (simp add: no_type_detected_def error_fields_null_def)

text \<open>
  C3. For every value passed to \<^verbatim>\<open>validateSyntax\<close>, of either validator and at any
  clock readings, the diagnostic is valid if and only if its error message, error kind,
  line number and suggestion are all \<^verbatim>\<open>null\<close>.
\<close>

theorem validity_iff_error_fields_null:
  "isValid (flexible_validateSyntax t0 t1 v)
     = error_fields_null (flexible_validateSyntax t0 t1 v)
   \<and> isValid (simple_validateSyntax t0 t1 v)
     = error_fields_null (simple_validateSyntax t0 t1 v)"
proof (cases "rejected_input v")
  case True
  then show ?thesis
    by (simp add: flexible_validateSyntax_rejected simple_validateSyntax_rejected
        input_error_consistent)
next
  case False
  then obtain s where v: "v = JString s" and s: "s \<noteq> []"
    using not_rejected_is_string by blast
  have "isValid (flexible_validateText t0 t1 s)
          = error_fields_null (flexible_validateText t0 t1 s)"
    by (simp add: flexible_validateText_def no_type_detected_consistent spread_consistent
        flexible_validateByType_def flexible_scan_consistent split: option.splits)
  moreover have "isValid (simple_validateText t0 t1 s)
          = error_fields_null (simple_validateText t0 t1 s)"
    by (simp add: simple_validateText_def no_type_detected_consistent spread_consistent
        simple_validateByType_consistent split: option.splits)
  ultimately show ?thesis
    using v s by (simp add: flexible_validateSyntax_string simple_validateSyntax_string)
qed

theorem validity_iff_error_fields_null_witness:
  "\<not> isValid (flexible_validateSyntax 0 4 (JString flowchart_example))
   \<and> \<not> error_fields_null (flexible_validateSyntax 0 4 (JString flowchart_example))
   \<and> \<not> error_fields_null (simple_validateSyntax 0 4 (JString flowchart_example))"
proof -
  have "\<not> isValid (flexible_validateSyntax 0 4 (JString flowchart_example))"
    by (simp add: flexible_validateSyntax_def flexible_validateText_def
        flowchart_example_accepted_input flowchart_example_detected
        flowchart_example_flexible_scan spread_def flexible_missing_type_def)
  moreover have "\<not> isValid (simple_validateSyntax 0 4 (JString flowchart_example))"
    by (simp add: simple_validateSyntax_def simple_validateText_def
        flowchart_example_accepted_input flowchart_example_detected
        flowchart_example_simple_scan spread_def simple_syntax_error_def)
  ultimately show ?thesis
    using validity_iff_error_fields_null [of 0 4 "JString flowchart_example"] by simp
qed


section \<open>Type detection\<close>

lemma meaningful_fun:
  "meaningful = (\<lambda>l. \<not> (trim l = [] \<or> startsWith ''%%'' (trim l)))"
  by (rule ext) (simp add: meaningful_def)

lemma detect_in_order_meaningful:
  "detect_in_order order ls =
     (case filter meaningful ls of
        [] \<Rightarrow> None
      | l # rest \<Rightarrow> find (\<lambda>d. test (declaration_rule d) (toLowerCase (trim l))) order)"
  by (simp only: detect_in_order_def meaningful_fun)

lemma detectDiagramType_find:
  "detectDiagramType ls =
     (case filter meaningful ls of
        [] \<Rightarrow> None
      | l # rest \<Rightarrow>
          find (\<lambda>d. test (declaration_rule d) (toLowerCase (trim l))) detection_order)"
  by (cases "filter meaningful ls")
     (simp_all add: detectDiagramType_def detection_order_def Let_def)

text \<open>
  C5. \<^verbatim>\<open>detectDiagramType\<close> (the same method in both validators) answers unknown when
  no line is left after dropping the lines that are empty after trimming or whose trimmed
  text starts with \<^verbatim>\<open>%%\<close>; otherwise it answers the first dialect, in the order graph,
  sequence, classDiagram, stateDiagram, erDiagram, gantt, journey, pie, gitGraph, mindmap,
  whose declaration rule matches the trimmed, lower-cased first remaining line, and unknown
  when none does.
\<close>

theorem detectDiagramType_in_fixed_order:
  "detectDiagramType ls = detect_in_order detection_order ls"
  by (simp add: detectDiagramType_find detect_in_order_meaningful)

theorem detectDiagramType_in_fixed_order_witness:
  "detectDiagramType [''  '', ''%% chart'', '' PIE title Pets '', ''gantt''] = Some Pie
   \<and> detect_in_order detection_order [''  '', ''%% chart'', '' PIE title Pets '', ''gantt'']
       = Some Pie"
proof -
  have "detectDiagramType [''  '', ''%% chart'', '' PIE title Pets '', ''gantt''] = Some Pie"
    by code_simp
  then show ?thesis
    using detectDiagramType_in_fixed_order
      [of "[''  '', ''%% chart'', '' PIE title Pets '', ''gantt'']"] by simp
qed


section \<open>Texts without a meaningful line\<close>

lemma dropWhile_all: "\<forall>c\<in>set s. P c \<Longrightarrow> dropWhile P s = []"
  by (induction s) simp_all

lemma trim_whitespace: "\<forall>c\<in>set s. isWhiteSpace c \<Longrightarrow> trim s = []"
  by (simp add: trim_def dropWhile_all)

lemma split_chars: "l \<in> set (split s) \<Longrightarrow> set l \<subseteq> set s"
proof (induction s arbitrary: l)
  case Nil
  then show ?case by simp
next
  case (Cons c cs)
  show ?case
  proof (cases "c = CHR 0x0A")
    case True
    with Cons show ?thesis by auto
  next
    case False
    show ?thesis
    proof (cases "split cs")
      case Nil
      with False Cons.prems show ?thesis by simp
    next
      case (Cons a list)
      with False Cons.prems have "l = c # a \<or> l \<in> set list" by auto
      then show ?thesis
      proof
        assume l: "l = c # a"
        have "set a \<subseteq> set cs" using Cons.IH [of a] Cons by simp
        with l show ?thesis by auto
      next
        assume "l \<in> set list"
        then have "set l \<subseteq> set cs" using Cons.IH [of l] Cons by simp
        then show ?thesis by auto
      qed
    qed
  qed
qed

lemma whitespace_lines_blank:
  assumes "\<forall>c\<in>set s. isWhiteSpace c"
  shows "\<forall>l\<in>set (split s). \<not> meaningful l"
proof
  fix l assume "l \<in> set (split s)"
  then have "set l \<subseteq> set s" by (rule split_chars)
  with assms have "\<forall>c\<in>set l. isWhiteSpace c" by blast
  then show "\<not> meaningful l" by (simp add: meaningful_def trim_whitespace)
qed

lemma detect_no_meaningful:
  assumes "\<forall>l\<in>set ls. \<not> meaningful l"
  shows "detectDiagramType ls = None"
proof -
  from assms have "filter meaningful ls = []" by (simp add: filter_empty_conv)
  then show ?thesis by (simp add: detectDiagramType_def)
qed

text \<open>
  C10. A non-empty string made of white space and line feeds only, and more generally a
  non-empty string whose every line is blank or a comment, passes the input guard: both
  validators return the diagnostic of an undetected type, with kind \<^verbatim>\<open>no_type\<close> (not
  \<^verbatim>\<open>input_error\<close>), line 1, diagram type \<^verbatim>\<open>unknown\<close> and element count 0.
\<close>

theorem blank_text_is_no_type:
  assumes "s \<noteq> []"
    and "(\<forall>c\<in>set s. isWhiteSpace c) \<or> (\<forall>l\<in>set (split s). trim l = [] \<or> isComment l)"
  shows "flexible_validateSyntax t0 t1 (JString s) = no_type_detected (t1 - t0)
       \<and> simple_validateSyntax t0 t1 (JString s) = no_type_detected (t1 - t0)
       \<and> \<not> isValid (no_type_detected (t1 - t0))
       \<and> type (no_type_detected (t1 - t0)) = Some ''no_type''
       \<and> line (no_type_detected (t1 - t0)) = Some 1
       \<and> diagramType (no_type_detected (t1 - t0)) = ''unknown''
       \<and> elementCount (no_type_detected (t1 - t0)) = 0"
proof -
  have "\<forall>l\<in>set (split s). \<not> meaningful l"
    using assms(2) whitespace_lines_blank by (auto simp: meaningful_def isComment_def)
  then have "detectDiagramType (split s) = None" by (rule detect_no_meaningful)
  then show ?thesis
    using assms(1)
    by (simp add: flexible_validateSyntax_string simple_validateSyntax_string
        flexible_validateText_def simple_validateText_def no_type_detected_def)
qed

theorem blank_text_is_no_type_witness:
  "[CHR 0x20, CHR 0x0A, CHR 0x09] \<noteq> []
   \<and> list_all isWhiteSpace [CHR 0x20, CHR 0x0A, CHR 0x09]
   \<and> flexible_validateSyntax 2 9 (JString [CHR 0x20, CHR 0x0A, CHR 0x09]) = no_type_detected 7
   \<and> simple_validateSyntax 2 9 (JString [CHR 0x20, CHR 0x0A, CHR 0x09]) = no_type_detected 7
   \<and> type (no_type_detected 7) = Some ''no_type''"
proof -
  have ws: "\<forall>c\<in>set [CHR 0x20, CHR 0x0A, CHR 0x09]. isWhiteSpace c"
    by (simp add: isWhiteSpace_def)
  then show ?thesis
    using blank_text_is_no_type [of "[CHR 0x20, CHR 0x0A, CHR 0x09]" 2 9] by simp
qed

section \<open>The pie chart without data\<close>

lemma pie_declaration_only_lines: "split pie_declaration_only = [''pie title Pets'']"
  unfolding pie_declaration_only_def by code_simp

lemma pie_declaration_only_detected: "detectDiagramType (split pie_declaration_only) = Some Pie"
  unfolding pie_declaration_only_lines by code_simp

lemma pie_declaration_only_count: "countElements (split pie_declaration_only) = 1"
  unfolding pie_declaration_only_lines by code_simp

lemma pie_declaration_only_flexible_scan:
  "flexible_validateByType Pie (split pie_declaration_only) = valid_result"
  unfolding pie_declaration_only_lines by code_simp

lemma pie_declaration_only_simple_scan:
  "simple_scan pie_type [simple_pie_data] 0 False False (split pie_declaration_only)
     = Completed True False"
  unfolding pie_declaration_only_lines by code_simp

lemma pie_declaration_only_nonempty: "pie_declaration_only \<noteq> []"
  by (simp add: pie_declaration_only_def)

text \<open>
  C2. The specification wants a pie chart whose scan ends with the declaration seen and no
  data line (such as \<^verbatim>\<open>pie title Pets\<close>) rejected with kind \<^verbatim>\<open>no_data\<close>, line 2.
  \<^verbatim>\<open>SimpleMermaidValidator.validatePie\<close> does so (lemma \<open>simple_pie_without_data\<close>
  below); the generic scan of the flexible validator has no such check, and accepts the
  text.
\<close>

theorem flexible_accepts_pie_without_data:
  "flexible_validateSyntax t0 t1 (JString pie_declaration_only) =
     \<lparr>isValid = True, error = None, type = None, line = None, suggestion = None,
      processingTime = t1 - t0, diagramType = ''pie'', elementCount = 1\<rparr>"
  by (simp add: flexible_validateSyntax_string pie_declaration_only_nonempty
      flexible_validateText_def pie_declaration_only_detected pie_declaration_only_count
      pie_declaration_only_flexible_scan spread_def valid_result_def)

text \<open>
  The strict validator: whenever the type is detected as pie and the scan ends with the
  declaration seen and no data line, the diagnostic is \<^verbatim>\<open>no_data\<close> at line 2.
\<close>

lemma simple_pie_without_data:
  assumes "detectDiagramType (split s) = Some Pie"
    and "simple_scan pie_type [simple_pie_data] 0 False False (split s) = Completed True False"
    and "s \<noteq> []"
  shows "simple_validateSyntax t0 t1 (JString s) =
           spread pie_no_data (t1 - t0) ''pie'' (countElements (split s))"
  using assms
  by (simp add: simple_validateSyntax_string simple_validateText_def validatePie_def)

lemma simple_rejects_pie_declaration_only:
  "simple_validateSyntax t0 t1 (JString pie_declaration_only) =
     \<lparr>isValid = False, error = Some ''No data found in pie chart'', type = Some ''no_data'',
      line = Some 2,
      suggestion = Some (''Add data in format: '' @ [CHR 0x22] @ ''Label'' @ [CHR 0x22]
                         @ '' : value''),
      processingTime = t1 - t0, diagramType = ''pie'', elementCount = 1\<rparr>"
  using simple_pie_without_data [OF pie_declaration_only_detected
      pie_declaration_only_simple_scan pie_declaration_only_nonempty, of t0 t1]
  by (simp add: spread_def pie_no_data_def pie_declaration_only_count)


section \<open>The fail-fast scan of the flexible validator\<close>

text \<open>
  What the loop computes: the syntax diagnostic of the first offending line if there is one,
  and otherwise the check of the flag \<^verbatim>\<open>hasType\<close>.
\<close>

lemma flexible_scan_outcome:
  "flexible_scan d i h ls =
     (case first_offending d ls of
        Some k \<Rightarrow> flexible_syntax_error d (trim (ls ! k)) (i + k)
      | None \<Rightarrow> if h \<or> flexible_declared d ls then valid_result else flexible_missing_type d)"
proof (induction ls arbitrary: i h)
  case Nil
  then show ?case by (simp add: flexible_declared_def)
next
  case (Cons l ls)
  show ?case
  proof (cases "meaningful l")
    case False
    then have skip: "trim l = [] \<or> startsWith ''%%'' (trim l)"
      by (simp add: meaningful_def)
    have "flexible_scan d i h (l # ls) = flexible_scan d (i + 1) h ls"
      using skip by auto
    moreover have "first_offending d (l # ls) = map_option Suc (first_offending d ls)"
      using False by (simp add: flexible_offending_def)
    moreover have "flexible_declared d (l # ls) = flexible_declared d ls"
      using False by (simp add: flexible_declared_def)
    ultimately show ?thesis
      by (simp add: Cons.IH split: option.splits)
  next
    case True
    then have m: "trim l \<noteq> []" "\<not> startsWith ''%%'' (trim l)"
      by (simp_all add: meaningful_def)
    show ?thesis
    proof (cases "flexible_isTypeLine d (trim l)")
      case tl: True
      have "flexible_scan d i h (l # ls) = flexible_scan d (i + 1) True ls"
        using m tl by simp
      moreover have "first_offending d (l # ls) = map_option Suc (first_offending d ls)"
        using tl by (simp add: flexible_offending_def)
      moreover have "flexible_declared d (l # ls)"
        using True tl by (simp add: flexible_declared_def)
      ultimately show ?thesis
        by (simp add: Cons.IH split: option.splits)
    next
      case ntl: False
      show ?thesis
      proof (cases "flexible_isValidLine d (trim l)")
        case vl: True
        have "flexible_scan d i h (l # ls) = flexible_scan d (i + 1) h ls"
          using m ntl vl by simp
        moreover have "first_offending d (l # ls) = map_option Suc (first_offending d ls)"
          using vl by (simp add: flexible_offending_def)
        moreover have "flexible_declared d (l # ls) = flexible_declared d ls"
          using ntl by (simp add: flexible_declared_def)
        ultimately show ?thesis
          by (simp add: Cons.IH split: option.splits)
      next
        case nvl: False
        have "flexible_scan d i h (l # ls) = flexible_syntax_error d (trim l) i"
          using m ntl nvl by simp
        moreover have "first_offending d (l # ls) = Some 0"
          using True ntl nvl by (simp add: flexible_offending_def)
        ultimately show ?thesis by simp
      qed
    qed
  qed
qed

lemma detected_text_nonempty: "detectDiagramType (split T) = Some d \<Longrightarrow> T \<noteq> []"
  by (auto simp: detectDiagramType_def meaningful_def trim_def)

lemma flexible_graph_never_declared: "\<not> flexible_declared Graph ls"
  by (simp add: flexible_declared_def flexible_isTypeLine_def list_ex_iff)

text \<open>
  The flag \<^verbatim>\<open>hasType\<close> is never set for the dialect \<^verbatim>\<open>graph\<close>: whatever text
  is detected as a flowchart, the flexible validator does not accept it.
\<close>

lemma flexible_never_accepts_graph:
  assumes "detectDiagramType (split T) = Some Graph"
  shows "\<not> isValid (flexible_validateSyntax t0 t1 (JString T))"
proof -
  have "T \<noteq> []" using assms by (rule detected_text_nonempty)
  moreover have "\<not> isValid (flexible_validateByType Graph (split T))"
    by (simp add: flexible_validateByType_def flexible_scan_outcome
        flexible_graph_never_declared flexible_syntax_error_def flexible_missing_type_def
        split: option.splits)
  ultimately show ?thesis
    using assms
    by (simp add: flexible_validateSyntax_string flexible_validateText_def spread_def)
qed

lemma first_offending_Some:
  "first_offending d ls = Some k \<longleftrightarrow>
     (k < length ls \<and> flexible_offending d (ls ! k) \<and> (\<forall>j<k. \<not> flexible_offending d (ls ! j)))"
proof (induction ls arbitrary: k)
  case Nil
  then show ?case by simp
next
  case (Cons l ls)
  show ?case
  proof (cases "flexible_offending d l")
    case True
    then show ?thesis by (cases k) auto
  next
    case False
    show ?thesis
    proof (cases k)
      case 0
      with False show ?thesis by auto
    next
      case (Suc k')
      have "(\<forall>j<Suc k'. \<not> flexible_offending d ((l # ls) ! j))
              = (\<forall>j<k'. \<not> flexible_offending d (ls ! j))"
        using False by (auto simp: less_Suc_eq_0_disj)
      with False Suc Cons.IH [of k'] show ?thesis by auto
    qed
  qed
qed

lemma first_offending_prefix:
  "first_offending d ls = Some k \<Longrightarrow> first_offending d (take (Suc k) ls @ rest) = Some k"
proof (induction ls arbitrary: k)
  case Nil
  then show ?case by simp
next
  case (Cons l ls)
  then show ?case
    by (cases "flexible_offending d l") (auto split: if_splits)
qed

text \<open>
  The report at the first line the scan rejects, and the end of the scan there.
\<close>

lemma flexible_scan_stops_at_first_rejected:
  assumes "detectDiagramType (split T) = Some d"
    and "1 \<le> k" and "k \<le> length (split T)"
    and "flexible_offending d (split T ! (k - 1))"
    and "\<forall>j. 1 \<le> j \<and> j < k \<longrightarrow> \<not> flexible_offending d (split T ! (j - 1))"
  shows "line (flexible_validateSyntax t0 t1 (JString T)) = Some k
       \<and> type (flexible_validateSyntax t0 t1 (JString T)) = Some ''syntax''
       \<and> error (flexible_validateSyntax t0 t1 (JString T)) =
           Some (''Invalid '' @ name d @ '' syntax: '' @ [CHR 0x22] @ trim (split T ! (k - 1))
                 @ [CHR 0x22])
       \<and> \<not> isValid (flexible_validateSyntax t0 t1 (JString T))
       \<and> (\<forall>rest. flexible_validateByType d (take k (split T) @ rest)
                    = flexible_validateByType d (split T))"
proof -
  have T: "T \<noteq> []"
  proof
    assume "T = []"
    then have "detectDiagramType (split T) = None" by (simp add: detectDiagramType_def meaningful_def trim_def)
    with assms(1) show False by simp
  qed
  have "\<forall>j<k - 1. \<not> flexible_offending d (split T ! j)"
  proof (intro allI impI)
    fix j assume "j < k - 1"
    then have "1 \<le> Suc j \<and> Suc j < k" by arith
    with assms(5) have "\<not> flexible_offending d (split T ! (Suc j - 1))" by blast
    then show "\<not> flexible_offending d (split T ! j)" by simp
  qed
  with assms(2,3,4) have fo: "first_offending d (split T) = Some (k - 1)"
    by (simp add: first_offending_Some)
  have r: "flexible_validateByType d (split T) = flexible_syntax_error d (trim (split T ! (k - 1))) (k - 1)"
    by (simp add: flexible_validateByType_def flexible_scan_outcome fo)
  have stop: "\<forall>rest. flexible_validateByType d (take k (split T) @ rest)
                    = flexible_validateByType d (split T)"
  proof
    fix rest
    have "first_offending d (take (Suc (k - 1)) (split T) @ rest) = Some (k - 1)"
      using fo by (rule first_offending_prefix)
    moreover have "Suc (k - 1) = k" using assms(2) by simp
    moreover have "(take k (split T) @ rest) ! (k - 1) = split T ! (k - 1)"
      using assms(2,3) by (simp add: nth_append)
    ultimately show "flexible_validateByType d (take k (split T) @ rest)
                    = flexible_validateByType d (split T)"
      by (simp add: flexible_validateByType_def flexible_scan_outcome fo)
  qed
  show ?thesis
    using T r stop assms(2)
    by (simp add: flexible_validateSyntax_string flexible_validateText_def assms(1)
        spread_def flexible_syntax_error_def)
qed


section \<open>The declaration rules are disjoint\<close>

lemma ends_Seq_nonempty:
  assumes "ends ic (Seq a b) st \<noteq> []"
  shows "\<exists>st'\<in>set (ends ic a st). ends ic b st' \<noteq> []"
proof (rule ccontr)
  assume "\<not> (\<exists>st'\<in>set (ends ic a st). ends ic b st' \<noteq> [])"
  then have "\<forall>st'\<in>set (ends ic a st). ends ic b st' = []" by blast
  then have "concat (map (ends ic b) (ends ic a st)) = []" by simp
  with assms show False by simp
qed

lemma ends_Seq_first: "ends ic (Seq a b) st \<noteq> [] \<Longrightarrow> ends ic a st \<noteq> []"
  using ends_Seq_nonempty by fastforce

lemma ends_Alt_nonempty:
  "ends ic (Alt a b) st \<noteq> [] \<Longrightarrow> ends ic a st \<noteq> [] \<or> ends ic b st \<noteq> []"
  by auto

lemma ends_Lit_elem:
  assumes "st' \<in> set (ends ic (Lit a) st)"
  shows "\<exists>c cs. snd st = c # cs \<and> chr_eq ic a c \<and> st' = (Some c, cs)"
  using assms by (auto simp: eat_def split: list.splits if_splits)

lemma ends_two_literals:
  assumes "ends ic (Seq (Lit a) (Seq (Lit b) r)) st \<noteq> []"
  shows "\<exists>c1 c2 cs. snd st = c1 # c2 # cs \<and> chr_eq ic a c1 \<and> chr_eq ic b c2"
proof -
  from assms obtain st1 where st1: "st1 \<in> set (ends ic (Lit a) st)"
    and n1: "ends ic (Seq (Lit b) r) st1 \<noteq> []"
    using ends_Seq_nonempty by blast
  from st1 obtain c1 cs1 where s: "snd st = c1 # cs1" "chr_eq ic a c1" "st1 = (Some c1, cs1)"
    using ends_Lit_elem by blast
  from n1 have "ends ic (Lit b) st1 \<noteq> []" by (rule ends_Seq_first)
  then obtain st2 where "st2 \<in> set (ends ic (Lit b) st1)"
    by (cases "ends ic (Lit b) st1") auto
  then obtain c2 cs2 where "snd st1 = c2 # cs2" "chr_eq ic b c2"
    using ends_Lit_elem by blast
  with s show ?thesis by auto
qed

lemma search_anchored_later: "\<not> search ic (Seq Bol r) (Some c) s"
  by (induction s arbitrary: c) simp_all

lemma test_anchored:
  assumes "test (RegExp (Seq Bol r) ic) s"
  shows "ends ic r (None, s) \<noteq> []"
proof -
  have "ends ic (Seq Bol r) (None, s) \<noteq> []"
    using assms search_anchored_later [of ic r]
    by (cases s) (auto simp: test_def)
  then show ?thesis by auto
qed

lemma head2_of_two:
  assumes "chr_eq True a c1" and "chr_eq True b c2"
  shows "head2 (c1 # c2 # cs) = [asciiUpper a, asciiUpper b]"
  using assms by (simp add: head2_def chr_eq_def)

lemma keyword_head:
  assumes "ends True (Seq (Lit a) (Seq (Lit b) r)) (None, s) \<noteq> []"
  shows "head2 s = [asciiUpper a, asciiUpper b]"
proof -
  from ends_two_literals [OF assms] obtain c1 c2 cs
    where "s = c1 # c2 # cs" "chr_eq True a c1" "chr_eq True b c2" by auto
  then show ?thesis by (simp add: head2_of_two)
qed

lemma upper_letters:
  "asciiUpper (CHR ''g'') = CHR ''G''" "asciiUpper (CHR ''r'') = CHR ''R''"
  "asciiUpper (CHR ''f'') = CHR ''F''" "asciiUpper (CHR ''l'') = CHR ''L''"
  "asciiUpper (CHR ''s'') = CHR ''S''" "asciiUpper (CHR ''e'') = CHR ''E''"
  "asciiUpper (CHR ''c'') = CHR ''C''" "asciiUpper (CHR ''t'') = CHR ''T''"
  "asciiUpper (CHR ''a'') = CHR ''A''" "asciiUpper (CHR ''j'') = CHR ''J''"
  "asciiUpper (CHR ''o'') = CHR ''O''" "asciiUpper (CHR ''p'') = CHR ''P''"
  "asciiUpper (CHR ''i'') = CHR ''I''" "asciiUpper (CHR ''m'') = CHR ''M''"
  by code_simp+

lemma graph_types_head: "test graph_types s \<Longrightarrow> head2 s \<in> set (heads Graph)"
proof -
  assume "test graph_types s"
  then have "ends True (Alt (str ''graph'') (str ''flowchart'')) (None, s) \<noteq> []"
    unfolding graph_types_def
    by (auto dest!: test_anchored ends_Seq_first simp del: ends.simps)
  then have "ends True (str ''graph'') (None, s) \<noteq> [] \<or> ends True (str ''flowchart'') (None, s) \<noteq> []"
    by (rule ends_Alt_nonempty)
  then show ?thesis
    by (auto simp: str_def upper_letters dest!: keyword_head simp del: ends.simps)
qed

lemma keyword_rule_head:
  assumes "test (RegExp (Seq Bol (Seq (Seq (Lit a) (Seq (Lit b) r)) q)) True) s"
  shows "head2 s = [asciiUpper a, asciiUpper b]"
  using assms by (auto dest!: test_anchored ends_Seq_first keyword_head simp del: ends.simps)

lemma declaration_rule_head: "test (declaration_rule d) s \<Longrightarrow> head2 s \<in> set (heads d)"
proof (cases d)
  case Graph
  assume "test (declaration_rule d) s"
  with Graph show ?thesis using graph_types_head by simp
next
  case Sequence
  assume "test (declaration_rule d) s"
  with Sequence show ?thesis
    by (auto simp: sequence_type_def str_def upper_letters dest!: keyword_rule_head)
next
  case ClassDiagram
  assume "test (declaration_rule d) s"
  with ClassDiagram show ?thesis
    by (auto simp: classDiagram_type_def str_def upper_letters dest!: keyword_rule_head)
next
  case StateDiagram
  assume "test (declaration_rule d) s"
  with StateDiagram show ?thesis
    by (auto simp: stateDiagram_type_def str_def upper_letters dest!: keyword_rule_head)
next
  case ErDiagram
  assume "test (declaration_rule d) s"
  with ErDiagram show ?thesis
    by (auto simp: erDiagram_type_def str_def upper_letters dest!: keyword_rule_head)
next
  case Gantt
  assume "test (declaration_rule d) s"
  with Gantt show ?thesis
    by (auto simp: gantt_type_def str_def upper_letters dest!: keyword_rule_head)
next
  case Journey
  assume "test (declaration_rule d) s"
  with Journey show ?thesis
    by (auto simp: journey_type_def str_def upper_letters dest!: keyword_rule_head)
next
  case Pie
  assume "test (declaration_rule d) s"
  with Pie show ?thesis
    by (auto simp: pie_type_def str_def upper_letters dest!: keyword_rule_head)
next
  case GitGraph
  assume "test (declaration_rule d) s"
  with GitGraph show ?thesis
    by (auto simp: gitGraph_type_def str_def upper_letters dest!: keyword_rule_head)
next
  case Mindmap
  assume "test (declaration_rule d) s"
  with Mindmap show ?thesis
    by (auto simp: mindmap_type_def str_def upper_letters dest!: keyword_rule_head)
qed

lemma heads_disjoint: "d \<noteq> d' \<Longrightarrow> set (heads d) \<inter> set (heads d') = {}"
  by (cases d; cases d') simp_all

lemma declaration_rules_exclusive:
  assumes "test (declaration_rule d) s" and "test (declaration_rule d') s"
  shows "d = d'"
proof (rule ccontr)
  assume "d \<noteq> d'"
  then have "set (heads d) \<inter> set (heads d') = {}" by (rule heads_disjoint)
  moreover have "head2 s \<in> set (heads d)" "head2 s \<in> set (heads d')"
    using assms by (auto dest: declaration_rule_head)
  ultimately show False by blast
qed

lemma find_unique_order:
  assumes uniq: "\<And>x y. P x \<Longrightarrow> P y \<Longrightarrow> x = y"
    and "set xs = set ys"
  shows "find P xs = find P ys"
proof (cases "\<exists>x\<in>set xs. P x")
  case False
  with assms(2) have "find P xs = None" "find P ys = None"
    by (auto simp: find_None_iff)
  then show ?thesis by simp
next
  case True
  then obtain x where x: "x \<in> set xs" "P x" by blast
  have "find P zs = Some x" if "x \<in> set zs" for zs
  proof (cases "find P zs")
    case None
    with that x(2) show ?thesis by (auto simp: find_None_iff)
  next
    case (Some z)
    then have "P z" by (auto simp: find_Some_iff)
    with x(2) uniq have "z = x" by blast
    with Some show ?thesis by simp
  qed
  with x(1) assms(2) show ?thesis by simp
qed

text \<open>
  C7. No line matches the declaration rules of two different dialects; hence testing the
  ten rules in any other order gives the result of \<^verbatim>\<open>detectDiagramType\<close>.
\<close>

theorem declaration_rules_disjoint:
  "(d \<noteq> d' \<longrightarrow> \<not> (test (declaration_rule d) s \<and> test (declaration_rule d') s))
   \<and> (set order = set detection_order \<longrightarrow> detect_in_order order ls = detectDiagramType ls)"
proof (intro conjI impI)
  assume "d \<noteq> d'"
  then show "\<not> (test (declaration_rule d) s \<and> test (declaration_rule d') s)"
    using declaration_rules_exclusive by blast
next
  assume o: "set order = set detection_order"
  have "find (\<lambda>d. test (declaration_rule d) t) order
          = find (\<lambda>d. test (declaration_rule d) t) detection_order" for t
    using o by (intro find_unique_order) (auto dest: declaration_rules_exclusive)
  then have "detect_in_order order ls = detect_in_order detection_order ls"
    by (simp add: detect_in_order_def split: list.splits)
  also have "\<dots> = detectDiagramType ls"
    by (simp add: detectDiagramType_find detect_in_order_meaningful)
  finally show "detect_in_order order ls = detectDiagramType ls" .
qed

theorem declaration_rules_disjoint_witness:
  "Graph \<noteq> GitGraph
   \<and> test (declaration_rule Graph) ''graph td''
   \<and> \<not> test (declaration_rule GitGraph) ''graph td''
   \<and> set (rev detection_order) = set detection_order
   \<and> detect_in_order (rev detection_order) [''%% c'', ''GitGraph''] = Some GitGraph
   \<and> detectDiagramType [''%% c'', ''GitGraph''] = Some GitGraph"
proof -
  have g: "test (declaration_rule Graph) ''graph td''" by code_simp
  have d: "detectDiagramType [''%% c'', ''GitGraph''] = Some GitGraph" by code_simp
  show ?thesis
    using g d declaration_rules_disjoint
      [of Graph GitGraph "''graph td''" "rev detection_order" "[''%% c'', ''GitGraph'']"]
    by simp
qed


section \<open>Offending lines\<close>

text \<open>
  Every line that matches the declaration rule of \<^verbatim>\<open>graph\<close> consists of letters and
  white space only, and so matches \<^verbatim>\<open>graph.validLine\<close>: that the scan never looks
  that declaration rule up does not change which lines it rejects.
\<close>

lemma matches_consumes:
  "matches ic r st st' \<Longrightarrow> only ic P r \<Longrightarrow> \<exists>u. snd st = u @ snd st' \<and> (\<forall>c\<in>set u. P c)"
proof (induction rule: matches.induct)
  case (m_Lit a c p cs)
  then have "c # cs = [c] @ cs \<and> (\<forall>x\<in>set [c]. P x)" by simp
  then show ?case by (metis snd_conv)
next
  case (m_Dot c p cs)
  then have "c # cs = [c] @ cs \<and> (\<forall>x\<in>set [c]. P x)" by simp
  then show ?case by (metis snd_conv)
next
  case (m_Cls items c p cs)
  then have "c # cs = [c] @ cs \<and> (\<forall>x\<in>set [c]. P x)" by simp
  then show ?case by (metis snd_conv)
next
  case (m_NCls items c p cs)
  then have "c # cs = [c] @ cs \<and> (\<forall>x\<in>set [c]. P x)" by simp
  then show ?case by (metis snd_conv)
next
  case (m_Seq a st st' b st'')
  then obtain u v where "snd st = u @ snd st'" "\<forall>c\<in>set u. P c"
    "snd st' = v @ snd st''" "\<forall>c\<in>set v. P c" by auto
  then have "snd st = (u @ v) @ snd st'' \<and> (\<forall>c\<in>set (u @ v). P c)" by auto
  then show ?case by blast
next
  case (m_StarStep a st st' st'')
  then obtain u v where "snd st = u @ snd st'" "\<forall>c\<in>set u. P c"
    "snd st' = v @ snd st''" "\<forall>c\<in>set v. P c" by auto
  then have "snd st = (u @ v) @ snd st'' \<and> (\<forall>c\<in>set (u @ v). P c)" by auto
  then show ?case by blast
next
  case (m_Plus a st st' st'')
  then obtain u v where "snd st = u @ snd st'" "\<forall>c\<in>set u. P c"
    "snd st' = v @ snd st''" "\<forall>c\<in>set v. P c" by auto
  then have "snd st = (u @ v) @ snd st'' \<and> (\<forall>c\<in>set (u @ v). P c)" by auto
  then show ?case by blast
qed (auto intro: exI [of _ "[]"])

lemma matches_to_the_end: "matches ic r st st' \<Longrightarrow> to_the_end r \<Longrightarrow> snd st' = []"
  by (induction rule: matches.induct) auto

lemma anchored_rule_consumes:
  assumes "test (RegExp (Seq Bol r) ic) s" and "only ic P r" and "to_the_end r"
  shows "\<forall>c\<in>set s. P c"
proof -
  from assms(1) have "ends ic r (None, s) \<noteq> []" by (rule test_anchored)
  then obtain st' where "st' \<in> set (ends ic r (None, s))"
    by (cases "ends ic r (None, s)") auto
  then have m: "matches ic r (None, s) st'" by (simp only: ends_iff_matches)
  from matches_consumes [OF m assms(2)] obtain u
    where "s = u @ snd st'" "\<forall>c\<in>set u. P c" by auto
  moreover from m assms(3) have "snd st' = []" by (rule matches_to_the_end)
  ultimately show ?thesis by simp
qed

lemma of_char_shifted: "(of_char (char_of (n::nat) :: char) :: nat) = n mod 256"
  by simp

lemma chr_eq_letter:
  assumes "inRange (CHR ''a'') (CHR ''z'') a \<or> inRange (CHR ''A'') (CHR ''Z'') a"
    and "chr_eq True a c"
  shows "letter_or_space c"
proof (cases "inRange (CHR ''a'') (CHR ''z'') c")
  case True
  then show ?thesis by (simp add: letter_or_space_def)
next
  case False
  then have c: "asciiUpper c = c" by (simp add: asciiUpper_def)
  from assms(2) have e: "asciiUpper a = c" using c by (simp add: chr_eq_def)
  show ?thesis
  proof (cases "inRange (CHR ''a'') (CHR ''z'') a")
    case True
    define n :: nat where "n = of_char a"
    from True have r: "97 \<le> n" "n \<le> 122"
      by (simp_all add: inRange_def n_def)
    from True e have "c = char_of (n - 32)" by (simp add: asciiUpper_def n_def)
    then have "(of_char c :: nat) = (n - 32) mod 256" by simp
    with r have "(of_char c :: nat) = n - 32" by simp
    with r have "65 \<le> (of_char c :: nat) \<and> (of_char c :: nat) \<le> 90" by arith
    then have "inRange (CHR ''A'') (CHR ''Z'') c" by (simp add: inRange_def)
    then show ?thesis by (simp add: letter_or_space_def)
  next
    case na: False
    with e have "a = c" by (simp add: asciiUpper_def)
    with assms(1) na show ?thesis by (simp add: letter_or_space_def)
  qed
qed

lemma whitespace_not_letter:
  "isWhiteSpace c \<Longrightarrow> \<not> inRange (CHR ''a'') (CHR ''z'') c \<and> \<not> inRange (CHR ''A'') (CHR ''Z'') c"
  by (auto simp: isWhiteSpace_def inRange_def)

lemma space_class_ignoring_case:
  assumes "cls_has True [CSpace] c"
  shows "letter_or_space c"
proof (cases "inRange (CHR ''a'') (CHR ''z'') c \<or> inRange (CHR ''A'') (CHR ''Z'') c")
  case True
  then show ?thesis by (auto simp: letter_or_space_def)
next
  case False
  then have "asciiUpper c = c" "asciiLower c = c"
    by (simp_all add: asciiUpper_def asciiLower_def)
  with assms show ?thesis by (simp add: cls_has_def letter_or_space_def)
qed

lemma letter_or_space_in_class:
  "letter_or_space c \<Longrightarrow> cls_has False graph_line_class c"
  by (auto simp: letter_or_space_def cls_has_def graph_line_class_def)


lemma only_letter:
  "inRange (CHR ''a'') (CHR ''z'') a \<or> inRange (CHR ''A'') (CHR ''Z'') a
   \<Longrightarrow> only True letter_or_space (Lit a)"
  using chr_eq_letter by simp

lemma only_space: "only True letter_or_space sp"
  using space_class_ignoring_case by (simp add: sp_def)

lemma graph_types_only_letters_and_spaces:
  assumes "test graph_types t"
  shows "\<forall>c\<in>set t. letter_or_space c"
proof -
  define r where "r = cat [alts [str ''graph'', str ''flowchart''], Star sp,
                Opt (alts [str ''TB'', str ''TD'', str ''BT'', str ''RL'', str ''LR'']),
                Star sp, Eol]"
  have o: "only True letter_or_space r"
    by (simp add: r_def str_def only_space only_letter inRange_def del: only.simps(2))
  have e: "to_the_end r"
    by (simp add: r_def)
  have "graph_types = RegExp (Seq Bol r) True"
    by (simp add: graph_types_def r_def)
  with assms have "test (RegExp (Seq Bol r) True) t" by simp
  then show ?thesis using o e by (rule anchored_rule_consumes)
qed

lemma star_class_all:
  "\<forall>c\<in>set s. cls_has ic items c \<Longrightarrow> \<exists>q. matches ic (Star (Cls items)) (p, s) (q, [])"
proof (induction s arbitrary: p)
  case Nil
  then show ?case by (auto intro: m_StarNil)
next
  case (Cons c cs)
  then obtain q where "matches ic (Star (Cls items)) (Some c, cs) (q, [])" by auto
  moreover have "matches ic (Cls items) (p, c # cs) (Some c, cs)"
    using Cons.prems by (simp add: m_Cls)
  ultimately show ?case by (blast intro: m_StarStep)
qed

lemma class_line_matches:
  assumes "t \<noteq> []" and "\<forall>c\<in>set t. cls_has ic items c"
  shows "test (RegExp (cat [Bol, Star sp, Plus (Cls items), Star sp, Eol]) ic) t"
proof -
  from assms(1) obtain c cs where t: "t = c # cs" by (cases t) auto
  with assms(2) obtain q where "matches ic (Star (Cls items)) (Some c, cs) (q, [])"
    using star_class_all [of cs ic items "Some c"] by auto
  moreover have "matches ic (Cls items) (None, c # cs) (Some c, cs)"
    using assms(2) t by (simp add: m_Cls)
  ultimately have "matches ic (Plus (Cls items)) (None, t) (q, [])"
    using t by (auto intro: m_Plus)
  then have "matches ic (cat [Bol, Star sp, Plus (Cls items), Star sp, Eol]) (None, t) (q, [])"
    by (auto intro!: m_Seq m_Bol m_StarNil m_Eol)
  then have "t = [] @ t \<and> matches ic (cat [Bol, Star sp, Plus (Cls items), Star sp, Eol])
       (if [] = ([]::string) then None else Some (last []), t) (q, [])" by simp
  then show ?thesis
    unfolding test_iff_matches by blast
qed

lemma flexible_graph_validLine_class:
  "flexible_graph_validLine
     = RegExp (cat [Bol, Star sp, Plus (Cls graph_line_class), Star sp, Eol]) False"
  by (simp add: flexible_graph_validLine_def graph_line_class_def)

lemma graph_declaration_is_valid_line:
  assumes "test graph_types t"
  shows "test flexible_graph_validLine t"
proof -
  have "head2 t \<in> set (heads Graph)" using assms by (rule graph_types_head)
  then have "t \<noteq> []" by (auto simp: head2_def)
  moreover have "\<forall>c\<in>set t. cls_has False graph_line_class c"
    using graph_types_only_letters_and_spaces [OF assms] letter_or_space_in_class by blast
  ultimately show ?thesis
    unfolding flexible_graph_validLine_class by (rule class_line_matches)
qed

lemma ends_literal_pair:
  assumes "ends ic (Seq (Lit a) (Lit b)) st \<noteq> []"
  shows "\<exists>c1 c2 cs. snd st = c1 # c2 # cs \<and> chr_eq ic a c1 \<and> chr_eq ic b c2"
proof -
  from assms obtain st1 where st1: "st1 \<in> set (ends ic (Lit a) st)"
    and n1: "ends ic (Lit b) st1 \<noteq> []"
    using ends_Seq_nonempty by blast
  from st1 obtain c1 cs1 where s: "snd st = c1 # cs1" "chr_eq ic a c1" "st1 = (Some c1, cs1)"
    using ends_Lit_elem by blast
  from n1 obtain st2 where "st2 \<in> set (ends ic (Lit b) st1)"
    by (cases "ends ic (Lit b) st1") auto
  then obtain c2 cs2 where "snd st1 = c2 # cs2" "chr_eq ic b c2"
    using ends_Lit_elem by blast
  with s show ?thesis by auto
qed

lemma comment_rule_starts:
  assumes "test comment_rule t"
  shows "startsWith ''%%'' t"
proof -
  have "test (RegExp (Seq Bol (Seq (Seq (Lit (CHR ''%'')) (Lit (CHR ''%''))) (Seq (Star Dot) Eol)))
          False) t"
    using assms by (simp add: comment_rule_def str_def)
  then have "ends False (Seq (Seq (Lit (CHR ''%'')) (Lit (CHR ''%''))) (Seq (Star Dot) Eol))
               (None, t) \<noteq> []"
    by (rule test_anchored)
  then have "ends False (Seq (Lit (CHR ''%'')) (Lit (CHR ''%''))) (None, t) \<noteq> []"
    by (rule ends_Seq_first)
  then obtain c1 c2 cs where "t = c1 # c2 # cs" "chr_eq False (CHR ''%'') c1"
    "chr_eq False (CHR ''%'') c2"
    using ends_literal_pair [of False "CHR ''%''" "CHR ''%''" "(None, t)"] by auto
  then show ?thesis by (simp add: startsWith_def chr_eq_def)
qed

lemma flexible_type_declaration:
  "d \<noteq> Graph \<Longrightarrow> flexible_type d = Some (declaration_rule d)"
  by (cases d) simp_all

text \<open>The lines the scan rejects are exactly the offending lines.\<close>

lemma flexible_offending_iff_offending: "flexible_offending d l = offending d l"
proof (cases "meaningful l")
  case False
  then show ?thesis by (auto simp: flexible_offending_def offending_def meaningful_def)
next
  case True
  then have nc: "\<not> test comment_rule (trim l)"
    using comment_rule_starts by (auto simp: meaningful_def)
  show ?thesis
  proof (cases "d = Graph")
    case g: True
    have "test graph_types (trim l) \<longrightarrow> test flexible_graph_validLine (trim l)"
      using graph_declaration_is_valid_line by blast
    with True nc g show ?thesis
      by (auto simp: flexible_offending_def offending_def meaningful_def
          flexible_isTypeLine_def flexible_isValidLine_def)
  next
    case False
    then have "flexible_rules d = [declaration_rule d, flexible_validLine d, comment_rule]"
      by (cases d) simp_all
    with True nc False show ?thesis
      by (simp add: flexible_offending_def offending_def meaningful_def
          flexible_isTypeLine_def flexible_isValidLine_def flexible_type_declaration)
  qed
qed

text \<open>
  C6. Let the text \<open>T\<close> have the detected dialect \<open>d\<close> and let line \<open>k\<close> (1-based) be its
  first offending line: not blank, not a comment, and matching none of the rules of \<open>d\<close>
  in the table, with no such line before it. Then the flexible validator reports line
  \<open>k\<close>, kind \<^verbatim>\<open>syntax\<close> and the message \<^verbatim>\<open>Invalid <dialect> syntax: "<line>"\<close>
  with the trimmed text of that line; and the scan stops there: whatever follows the first
  \<open>k\<close> lines does not change the result of the scan.
\<close>

theorem flexible_fail_fast:
  assumes "detectDiagramType (split T) = Some d"
    and "1 \<le> k" and "k \<le> length (split T)"
    and "offending d (split T ! (k - 1))"
    and "\<forall>j. 1 \<le> j \<and> j < k \<longrightarrow> \<not> offending d (split T ! (j - 1))"
  shows "line (flexible_validateSyntax t0 t1 (JString T)) = Some k
       \<and> type (flexible_validateSyntax t0 t1 (JString T)) = Some ''syntax''
       \<and> error (flexible_validateSyntax t0 t1 (JString T)) =
           Some (''Invalid '' @ name d @ '' syntax: '' @ [CHR 0x22] @ trim (split T ! (k - 1))
                 @ [CHR 0x22])
       \<and> \<not> isValid (flexible_validateSyntax t0 t1 (JString T))
       \<and> (\<forall>rest. flexible_validateByType d (take k (split T) @ rest)
                    = flexible_validateByType d (split T))"
proof -
  have "flexible_offending d (split T ! (k - 1))"
    using assms(4) by (simp only: flexible_offending_iff_offending)
  moreover have "\<forall>j. 1 \<le> j \<and> j < k \<longrightarrow> \<not> flexible_offending d (split T ! (j - 1))"
    using assms(5) by (simp only: flexible_offending_iff_offending)
  ultimately show ?thesis
    using assms(1,2,3) by (rule flexible_scan_stops_at_first_rejected [rotated 3])
qed

theorem flexible_fail_fast_witness:
  "detectDiagramType (split pie_bad_line_example) = Some Pie
   \<and> offending Pie (split pie_bad_line_example ! (2 - 1))
   \<and> \<not> offending Pie (split pie_bad_line_example ! (1 - 1))
   \<and> line (flexible_validateSyntax 0 3 (JString pie_bad_line_example)) = Some 2
   \<and> type (flexible_validateSyntax 0 3 (JString pie_bad_line_example)) = Some ''syntax''
   \<and> error (flexible_validateSyntax 0 3 (JString pie_bad_line_example)) =
         Some (''Invalid pie syntax: '' @ [CHR 0x22] @ ''slices = 3'' @ [CHR 0x22])"
proof -
  have lines: "split pie_bad_line_example = [''pie'', ''  slices = 3'', ''  also bad'']"
    unfolding pie_bad_line_example_def by code_simp
  have det: "detectDiagramType (split pie_bad_line_example) = Some Pie"
    unfolding lines by code_simp
  have off2: "offending Pie (split pie_bad_line_example ! (2 - 1))"
    unfolding lines by code_simp
  have off1: "\<not> offending Pie (split pie_bad_line_example ! (1 - 1))"
    unfolding lines by code_simp
  have before: "\<forall>j. 1 \<le> j \<and> j < 2 \<longrightarrow> \<not> offending Pie (split pie_bad_line_example ! (j - 1))"
  proof (intro allI impI)
    fix j :: nat assume "1 \<le> j \<and> j < 2"
    then have "j = 1" by arith
    with off1 show "\<not> offending Pie (split pie_bad_line_example ! (j - 1))" by simp
  qed
  have len: "2 \<le> length (split pie_bad_line_example)"
    by (simp add: lines)
  have tr: "trim (split pie_bad_line_example ! (2 - 1)) = ''slices = 3''"
    unfolding lines by code_simp
  show ?thesis
    using flexible_fail_fast [OF det _ len off2 before, of 0 3] det off2 off1 tr by simp
qed


section \<open>The error classifier\<close>

text \<open>
  C8, as stated: the specification's table gives, for the kind \<^verbatim>\<open>unknown_command\<close>,
  the suggestion \<^verbatim>\<open>Verify the command is supported in your diagram syntax version\<close>.
  The code's table has another text for that kind.
\<close>

theorem unknown_command_suggestion_counterexample:
  "classifyError (Some ''Unknown command'') = ''unknown_command''
   \<and> getSuggestion (Some ''Unknown command'')
       \<noteq> ''Verify the command is supported in your diagram syntax version''"
  by code_simp

lemma classifyError_first_hit: "classifyError m = first_hit (lowered_message m)"
  by (simp add: classifyError_def first_hit_def classification_order_def Let_def)

text \<open>
  C8, amended: the kind of a message is the kind of the first substring, in the order
  \<^verbatim>\<open>syntax error\<close>, \<^verbatim>\<open>no diagram type\<close>, \<^verbatim>\<open>unknown\<close>, \<^verbatim>\<open>parse\<close>,
  \<^verbatim>\<open>identifier\<close>, \<^verbatim>\<open>relation\<close>, that the lower-cased message contains, and
  \<^verbatim>\<open>general\<close> if it contains none; each kind has the suggestion of the code's table,
  where \<^verbatim>\<open>unknown_command\<close> has
  \<^verbatim>\<open>Verify the command is supported in your Mermaid version\<close>.
\<close>

theorem classifier_and_suggestions:
  "classifyError m = first_hit (lowered_message m)
   \<and> (classifyError m = ''syntax'' \<longrightarrow>
        getSuggestion m = ''Check for missing semicolons, brackets, or incorrect syntax'')
   \<and> (classifyError m = ''no_type'' \<longrightarrow>
        getSuggestion m = ''Add a diagram type at the beginning (e.g., graph TD, sequenceDiagram)'')
   \<and> (classifyError m = ''unknown_command'' \<longrightarrow>
        getSuggestion m = ''Verify the command is supported in your Mermaid version'')
   \<and> (classifyError m = ''parse'' \<longrightarrow>
        getSuggestion m = ''Check the structure and syntax of your diagram'')
   \<and> (classifyError m = ''identifier'' \<longrightarrow>
        getSuggestion m = ''Ensure all identifiers are valid and properly referenced'')
   \<and> (classifyError m = ''relation'' \<longrightarrow>
        getSuggestion m = ''Check arrow syntax and node connections'')
   \<and> (classifyError m = ''general'' \<longrightarrow>
        getSuggestion m = ''Review the diagram syntax and structure'')
   \<and> classifyError m \<in> {''syntax'', ''no_type'', ''unknown_command'', ''parse'',
                          ''identifier'', ''relation'', ''general''}"
  by (simp add: classifyError_first_hit first_hit_def classification_order_def getSuggestion_def
      suggestions_def)

theorem classifier_and_suggestions_witness:
  "classifyError (Some ''Parse error: Unknown token'') = ''unknown_command''
   \<and> getSuggestion (Some ''Parse error: Unknown token'')
       = ''Verify the command is supported in your Mermaid version''"
proof -
  have "classifyError (Some ''Parse error: Unknown token'') = ''unknown_command''"
    by code_simp
  then show ?thesis
    using classifier_and_suggestions [of "Some ''Parse error: Unknown token''"] by simp
qed


section \<open>Comment lines\<close>

lemma comment_not_meaningful: "isComment l \<Longrightarrow> \<not> meaningful l"
  by (simp add: isComment_def meaningful_def)

lemma meaningful_strip_comments: "filter meaningful (strip_comments ls) = filter meaningful ls"
  by (induction ls) (auto simp: strip_comments_def comment_not_meaningful)

lemma detect_strip_comments: "detectDiagramType (strip_comments ls) = detectDiagramType ls"
  by (simp add: detectDiagramType_def meaningful_strip_comments)

lemma count_strip_comments: "countElements (strip_comments ls) = countElements ls"
  by (simp add: countElements_def meaningful_strip_comments)

lemma declared_strip_comments:
  "flexible_declared d (strip_comments ls) = flexible_declared d ls"
  by (induction ls) (auto simp: flexible_declared_def strip_comments_def comment_not_meaningful)

lemma comment_not_offending: "isComment l \<Longrightarrow> \<not> flexible_offending d l"
  by (simp add: flexible_offending_def comment_not_meaningful)

lemma content_index_Cons:
  "content_index (l # ls) (Suc k) = (if isComment l then 0 else 1) + content_index ls k"
  by (simp add: content_index_def strip_comments_def)

lemma content_index_0: "content_index ls 0 = 0"
  by (simp add: content_index_def strip_comments_def)

lemma first_offending_strip_comments:
  "first_offending d (strip_comments ls)
     = map_option (content_index ls) (first_offending d ls)"
proof (induction ls)
  case Nil
  then show ?case by (simp add: strip_comments_def)
next
  case (Cons l ls)
  show ?case
  proof (cases "isComment l")
    case True
    then have "strip_comments (l # ls) = strip_comments ls"
      by (simp add: strip_comments_def)
    moreover have "first_offending d (l # ls) = map_option Suc (first_offending d ls)"
      using True by (simp add: comment_not_offending)
    ultimately show ?thesis
      using True Cons.IH
      by (simp add: option.map_comp comp_def content_index_Cons)
  next
    case False
    then have s: "strip_comments (l # ls) = l # strip_comments ls"
      by (simp add: strip_comments_def)
    show ?thesis
    proof (cases "flexible_offending d l")
      case True
      with s show ?thesis by (simp add: content_index_0)
    next
      case nf: False
      with s False Cons.IH show ?thesis
        by (simp add: option.map_comp comp_def content_index_Cons)
    qed
  qed
qed

lemma offending_line_strip_comments:
  "first_offending d ls = Some k \<Longrightarrow> strip_comments ls ! content_index ls k = ls ! k"
proof (induction ls arbitrary: k)
  case Nil
  then show ?case by simp
next
  case (Cons l ls)
  show ?case
  proof (cases "flexible_offending d l")
    case True
    with Cons.prems have "k = 0" by simp
    moreover have "\<not> isComment l" using True comment_not_offending by blast
    ultimately show ?thesis by (simp add: content_index_0 strip_comments_def)
  next
    case False
    with Cons.prems obtain k' where k: "k = Suc k'" "first_offending d ls = Some k'"
      by auto
    with Cons.IH have "strip_comments ls ! content_index ls k' = ls ! k'" by simp
    with k show ?thesis
      by (simp add: content_index_Cons) (simp add: strip_comments_def)
  qed
qed

lemma content_index_Suc_offending:
  assumes "first_offending d ls = Some k"
  shows "content_index ls (Suc k) = Suc (content_index ls k)"
proof -
  from assms have k: "k < length ls" "flexible_offending d (ls ! k)"
    by (simp_all add: first_offending_Some)
  then have "\<not> isComment (ls ! k)" using comment_not_offending by blast
  with k(1) show ?thesis
    by (simp add: content_index_def strip_comments_def take_Suc_conv_app_nth)
qed

lemma flexible_scan_strip_comments:
  "isValid (flexible_validateByType d ls) = isValid (flexible_validateByType d (strip_comments ls))
   \<and> error (flexible_validateByType d ls) = error (flexible_validateByType d (strip_comments ls))
   \<and> type (flexible_validateByType d ls) = type (flexible_validateByType d (strip_comments ls))
   \<and> suggestion (flexible_validateByType d ls)
       = suggestion (flexible_validateByType d (strip_comments ls))
   \<and> (if type (flexible_validateByType d ls) = Some ''syntax''
      then map_option (content_index ls) (line (flexible_validateByType d ls))
             = line (flexible_validateByType d (strip_comments ls))
      else line (flexible_validateByType d ls)
             = line (flexible_validateByType d (strip_comments ls)))"
proof (cases "first_offending d ls")
  case None
  then have "first_offending d (strip_comments ls) = None"
    by (simp add: first_offending_strip_comments)
  with None show ?thesis
    by (simp add: flexible_validateByType_def flexible_scan_outcome declared_strip_comments
        valid_result_def flexible_missing_type_def)
next
  case (Some k)
  then have "first_offending d (strip_comments ls) = Some (content_index ls k)"
    by (simp add: first_offending_strip_comments)
  moreover have "strip_comments ls ! content_index ls k = ls ! k"
    using Some by (rule offending_line_strip_comments)
  moreover have "content_index ls (Suc k) = Suc (content_index ls k)"
    using Some by (rule content_index_Suc_offending)
  ultimately show ?thesis
    using Some
    by (simp add: flexible_validateByType_def flexible_scan_outcome flexible_syntax_error_def)
qed

text \<open>
  C9, as stated, for every text: the empty text is rejected by the input guard with no line
  number, while the same text with a comment line before it passes the guard and gets the
  undetected-type diagnostic at line 1.
\<close>

theorem prepended_comment_counterexample:
  "strip_comments (split (''%% note'' @ [CHR 0x0A])) = strip_comments (split [])
   \<and> line (flexible_validateSyntax 0 0 (JString [])) = None
   \<and> line (flexible_validateSyntax 0 0 (JString (''%% note'' @ [CHR 0x0A]))) = Some 1"
  by code_simp

text \<open>
  C9, amended. Let \<open>T\<close> and \<open>T'\<close> be non-empty texts with the same lines once the comment
  lines (trimmed text starting with \<^verbatim>\<open>%%\<close>) are removed, so that each results from the
  other by inserting and deleting comment lines anywhere. Then the flexible validator gives
  both the same validity, diagram type, element count, error kind and message. The failure
  line agrees as follows: a syntax failure is reported, in both, at the same line of the
  content (the reported numbers have the same position among the lines that are not
  comments), and any other diagnostic has the same line number. The element count is that
  of the text without its comment lines (and 0 when no type is detected).
\<close>

theorem comment_transparency:
  assumes "T \<noteq> []" and "T' \<noteq> []"
    and "strip_comments (split T') = strip_comments (split T)"
  shows "isValid (flexible_validateSyntax t0' t1' (JString T'))
           = isValid (flexible_validateSyntax t0 t1 (JString T))
       \<and> diagramType (flexible_validateSyntax t0' t1' (JString T'))
           = diagramType (flexible_validateSyntax t0 t1 (JString T))
       \<and> elementCount (flexible_validateSyntax t0' t1' (JString T'))
           = elementCount (flexible_validateSyntax t0 t1 (JString T))
       \<and> type (flexible_validateSyntax t0' t1' (JString T'))
           = type (flexible_validateSyntax t0 t1 (JString T))
       \<and> error (flexible_validateSyntax t0' t1' (JString T'))
           = error (flexible_validateSyntax t0 t1 (JString T))
       \<and> same_failure_line (split T) (flexible_validateSyntax t0 t1 (JString T))
             (split T') (flexible_validateSyntax t0' t1' (JString T'))
       \<and> elementCount (flexible_validateSyntax t0 t1 (JString T))
           = (if detectDiagramType (split T) = None then 0
              else countElements (strip_comments (split T)))"
proof -
  have det: "detectDiagramType (split T') = detectDiagramType (split T)"
    using assms(3) detect_strip_comments [of "split T"] detect_strip_comments [of "split T'"]
    by simp
  have cnt: "countElements (split T') = countElements (split T)"
    using assms(3) count_strip_comments [of "split T"] count_strip_comments [of "split T'"]
    by simp
  show ?thesis
  proof (cases "detectDiagramType (split T)")
    case None
    with det assms(1,2) show ?thesis
      by (simp add: flexible_validateSyntax_string flexible_validateText_def
          no_type_detected_def same_failure_line_def)
  next
    case (Some d)
    note a = flexible_scan_strip_comments [of d "split T"]
    note b = flexible_scan_strip_comments [of d "split T'"]
    have V: "flexible_validateSyntax t0 t1 (JString T)
               = spread (flexible_validateByType d (split T)) (t1 - t0) (name d)
                   (countElements (split T))"
      using Some assms(1) by (simp add: flexible_validateSyntax_string flexible_validateText_def)
    have V': "flexible_validateSyntax t0' t1' (JString T')
               = spread (flexible_validateByType d (split T')) (t1' - t0') (name d)
                   (countElements (split T))"
      using Some det cnt assms(2)
      by (simp add: flexible_validateSyntax_string flexible_validateText_def)
    have ty: "type (flexible_validateByType d (split T'))
                = type (flexible_validateByType d (split T))"
      using a b assms(3) by simp
    have ln: "same_failure_line (split T) (flexible_validateSyntax t0 t1 (JString T))
             (split T') (flexible_validateSyntax t0' t1' (JString T'))"
    proof (cases "type (flexible_validateByType d (split T)) = Some ''syntax''")
      case True
      with a b ty assms(3) show ?thesis
        by (simp add: V V' same_failure_line_def spread_def)
    next
      case False
      with a b ty assms(3) show ?thesis
        by (simp add: V V' same_failure_line_def spread_def)
    qed
    show ?thesis
      using a b assms(3) ln Some
      by (simp add: V V' spread_def count_strip_comments)
  qed
qed

theorem comment_transparency_witness:
  "pie_bad_line_example \<noteq> [] \<and> pie_bad_line_commented \<noteq> []
   \<and> strip_comments (split pie_bad_line_commented) = strip_comments (split pie_bad_line_example)
   \<and> line (flexible_validateSyntax 0 3 (JString pie_bad_line_example)) = Some 2
   \<and> line (flexible_validateSyntax 0 5 (JString pie_bad_line_commented)) = Some 4
   \<and> same_failure_line (split pie_bad_line_example)
         (flexible_validateSyntax 0 3 (JString pie_bad_line_example))
         (split pie_bad_line_commented)
         (flexible_validateSyntax 0 5 (JString pie_bad_line_commented))
   \<and> elementCount (flexible_validateSyntax 0 5 (JString pie_bad_line_commented)) = 3
   \<and> elementCount (flexible_validateSyntax 0 3 (JString pie_bad_line_example)) = 3"
proof -
  have n: "pie_bad_line_example \<noteq> []" "pie_bad_line_commented \<noteq> []"
    by (simp_all add: pie_bad_line_example_def pie_bad_line_commented_def)
  have s: "strip_comments (split pie_bad_line_commented)
             = strip_comments (split pie_bad_line_example)"
    unfolding pie_bad_line_example_def pie_bad_line_commented_def by code_simp
  have l: "line (flexible_validateSyntax 0 3 (JString pie_bad_line_example)) = Some 2"
    unfolding pie_bad_line_example_def by code_simp
  have l': "line (flexible_validateSyntax 0 5 (JString pie_bad_line_commented)) = Some 4"
    unfolding pie_bad_line_commented_def by code_simp
  have c: "elementCount (flexible_validateSyntax 0 3 (JString pie_bad_line_example)) = 3"
    unfolding pie_bad_line_example_def by code_simp
  show ?thesis
    using comment_transparency [OF n s, of 0 5 0 3] n s l l' c by simp
qed

end
